theory Spec2Isabelle
  imports Main
begin

section \<open>Strings and thrown errors\<close>

text \<open>
  A JavaScript string is held as a HOL \<open>string\<close>, the list of its UTF-8 bytes.
  \<open>s.startsWith(p)\<close> and \<open>s.includes(p)\<close> compare code units; on well-formed
  text the byte-wise tests below agree with them.
\<close>

definition startsWith :: "string \<Rightarrow> string \<Rightarrow> bool" where
  "startsWith s p = (take (length p) s = p)"

fun str_includes :: "string \<Rightarrow> string \<Rightarrow> bool" where
  "str_includes [] p = (p = [])"
| "str_includes (c # cs) p = (startsWith (c # cs) p \<or> str_includes cs p)"

text \<open>
  Whatever a callee throws is an error object with a \<open>name\<close> and a \<open>message\<close>;
  the message is \<open>None\<close> when the thrown object has no \<open>message\<close> property.
\<close>

datatype js_error = JsError (name: string) (message: "string option")

subsection \<open>Rate-limit classification (server.js, lines 96-101)\<close>

text \<open>
  \<open>error.message && (error.message.includes('429') || ...)\<close>: the value is truthy
  when the message is present, is not the empty string, and contains one of the four
  literals.
\<close>

definition is429Error :: "js_error \<Rightarrow> bool" where
  "is429Error err =
     (case message err of
        None \<Rightarrow> False
      | Some msg \<Rightarrow>
          msg \<noteq> [] \<and>
          (str_includes msg ''429'' \<or>
           str_includes msg ''quota'' \<or>
           str_includes msg ''rate limit'' \<or>
           str_includes msg ''too many requests''))"

section \<open>The credential pool and its cursor (server.js, lines 49-70)\<close>

text \<open>
  \<open>apiKeyPool\<close> is fixed at start-up; \<open>currentApiKeyIndex\<close> starts at 0 and is
  only ever assigned \<open>(currentApiKeyIndex + 1) % apiKeyPool.length\<close>. With an empty
  pool that remainder is \<open>NaN\<close>, and \<open>NaN\<close> stays \<open>NaN\<close>.
\<close>

datatype js_index = Idx nat | NaN

text \<open>\<open>apiKeyPool[i]\<close>: \<open>None\<close> is JavaScript's \<open>undefined\<close>.\<close>

fun pool_at :: "string list \<Rightarrow> js_index \<Rightarrow> string option" where
  "pool_at apiKeyPool (Idx i) = (if i < length apiKeyPool then Some (apiKeyPool ! i) else None)"
| "pool_at apiKeyPool NaN = None"

definition getCurrentApiKey :: "string list \<Rightarrow> js_index \<Rightarrow> string option" where
  "getCurrentApiKey apiKeyPool currentApiKeyIndex = pool_at apiKeyPool currentApiKeyIndex"

fun next_index :: "string list \<Rightarrow> js_index \<Rightarrow> js_index" where
  "next_index apiKeyPool (Idx i) =
     (if length apiKeyPool = 0 then NaN else Idx ((i + 1) mod length apiKeyPool))"
| "next_index apiKeyPool NaN = NaN"

text \<open>
  \<open>switchToNextApiKey\<close> returns the credential at the new cursor, and the new cursor.
  Its \<open>console.log\<close> line is not part of the model.
\<close>

definition switchToNextApiKey :: "string list \<Rightarrow> js_index \<Rightarrow> string option \<times> js_index" where
  "switchToNextApiKey apiKeyPool currentApiKeyIndex =
     (let i = next_index apiKeyPool currentApiKeyIndex in (pool_at apiKeyPool i, i))"

text \<open>
  A generative model is a backend client bound to one credential; the model name and
  the safety settings are constants of the program.
\<close>

datatype generative_model = GenerativeModel (apiKey: "string option") (modelName: string)

definition model_name :: string where
  "model_name = ''gemini-2.5-pro-exp-03-25''"

definition getGenerativeModel :: "string list \<Rightarrow> js_index \<Rightarrow> generative_model" where
  "getGenerativeModel apiKeyPool currentApiKeyIndex =
     GenerativeModel (getCurrentApiKey apiKeyPool currentApiKeyIndex) model_name"

text \<open>Calling \<open>switchToNextApiKey\<close> \<open>k\<close> times in a row, keeping what each call returns.\<close>

fun switch_times :: "string list \<Rightarrow> nat \<Rightarrow> js_index \<Rightarrow> string option list \<times> js_index" where
  "switch_times apiKeyPool 0 c = ([], c)"
| "switch_times apiKeyPool (Suc k) c =
     (case switchToNextApiKey apiKeyPool c of
        (key, c') \<Rightarrow> (case switch_times apiKeyPool k c' of (keys, c'') \<Rightarrow> (key # keys, c'')))"

section \<open>The retry executor (server.js, lines 88-117)\<close>

text \<open>
  The process-wide cursor together with everything else a backend call can change
  (the HTTP response under construction, the backend's own state). One request is
  served at a time: no other request moves the cursor between two attempts.
\<close>

record 'w state =
  currentApiKeyIndex :: js_index
  world :: 'w

type_synonym ('w, 'r) api_call = "generative_model \<Rightarrow> 'w \<Rightarrow> (js_error + 'r) \<times> 'w"

definition all_keys_limited :: js_error where
  "all_keys_limited = JsError ''Error''
     (Some (map char_of
       [0xE6, 0x89, 0x80, 0xE6, 0x9C, 0x89, 0x41, 0x50, 0x49, 0xE5, 0xAF, 0x86, 0xE9, 0x92,
        0xA5, 0xE9, 0x83, 0xBD, 0xE5, 0xB7, 0xB2, 0xE8, 0xBE, 0xBE, 0xE5, 0x88, 0xB0, 0xE9,
        0x80, 0x9F, 0xE7, 0x8E, 0x87, 0xE9, 0x99, 0x90, 0xE5, 0x88, 0xB6 :: nat]))"

text \<open>
  The \<open>while (retryCount < maxRetries)\<close> loop. Inside the loop \<open>maxRetries\<close> is at
  least 1, so \<open>maxRetries - 1\<close> on naturals is the source's subtraction.
\<close>

function retry_loop ::
  "string list \<Rightarrow> ('w, 'r) api_call \<Rightarrow> nat \<Rightarrow> nat \<Rightarrow> 'w state \<Rightarrow> (js_error + 'r) \<times> 'w state"
where
  "retry_loop apiKeyPool apiCallFn maxRetries retryCount s =
     (if retryCount < maxRetries then
        (case apiCallFn (getGenerativeModel apiKeyPool (currentApiKeyIndex s)) (world s) of
           (Inr result, w) \<Rightarrow> (Inr result, s\<lparr>world := w\<rparr>)
         | (Inl err, w) \<Rightarrow>
             if \<not> is429Error err \<or> retryCount \<ge> maxRetries - 1
             then (Inl err, s\<lparr>world := w\<rparr>)
             else retry_loop apiKeyPool apiCallFn maxRetries (retryCount + 1)
                    \<lparr>currentApiKeyIndex = snd (switchToNextApiKey apiKeyPool (currentApiKeyIndex s)),
                     world = w\<rparr>)
      else (Inl all_keys_limited, s))"
  by pat_completeness auto
termination
  by (relation "measure (\<lambda>(apiKeyPool, apiCallFn, maxRetries, retryCount, s). maxRetries - retryCount)")
     auto

declare retry_loop.simps [simp del]

definition executeWithRetry ::
  "string list \<Rightarrow> ('w, 'r) api_call \<Rightarrow> nat \<Rightarrow> 'w state \<Rightarrow> (js_error + 'r) \<times> 'w state" where
  "executeWithRetry apiKeyPool apiCallFn maxRetries s =
     retry_loop apiKeyPool apiCallFn maxRetries 0 s"

text \<open>The default attempt budget: \<open>maxRetries = apiKeyPool.length\<close>.\<close>

definition executeWithRetry_default ::
  "string list \<Rightarrow> ('w, 'r) api_call \<Rightarrow> 'w state \<Rightarrow> (js_error + 'r) \<times> 'w state" where
  "executeWithRetry_default apiKeyPool apiCallFn s =
     executeWithRetry apiKeyPool apiCallFn (length apiKeyPool) s"

subsection \<open>Observing the calls\<close>

text \<open>
  A call function wrapped so that every invocation is written down: the model it was
  handed and what it returned or threw. The wrapped function behaves as the original
  on the rest of the world.
\<close>

definition spy :: "('w, 'r) api_call \<Rightarrow> ((generative_model \<times> (js_error + 'r)) list \<times> 'w, 'r) api_call" where
  "spy apiCallFn m lw =
     (case apiCallFn m (snd lw) of (r, w) \<Rightarrow> (r, (fst lw @ [(m, r)], w)))"


section \<open>Request values\<close>

text \<open>
  What \<open>bodyParser.json\<close> hands to a handler: \<open>JUndefined\<close> stands for an absent
  field, a number is held as the text JavaScript prints for it, and an object is the
  list of its own properties, each name once.
\<close>

datatype js_value =
    JUndefined
  | JNull
  | JBool bool
  | JNum string
  | JStr string
  | JArr "js_value list"
  | JObj "(string \<times> js_value) list"

text \<open>Truthiness, as \<open>if (v)\<close>, \<open>!v\<close>, \<open>a && b\<close> and \<open>a || b\<close> read a value.\<close>

fun truthy :: "js_value \<Rightarrow> bool" where
  "truthy JUndefined = False"
| "truthy JNull = False"
| "truthy (JBool b) = b"
| "truthy (JNum n) = (n \<noteq> ''0'' \<and> n \<noteq> ''NaN'')"
| "truthy (JStr s) = (s \<noteq> [])"
| "truthy (JArr vs) = True"
| "truthy (JObj fs) = True"

definition nullish :: "js_value \<Rightarrow> bool" where
  "nullish v = (v = JUndefined \<or> v = JNull)"

text \<open>
  \<open>v.k\<close> for the property names the handlers read (\<open>role\<close>, \<open>content\<close>, \<open>type\<close>,
  \<open>text\<close>, \<open>image_url\<close>, \<open>url\<close>, \<open>data\<close>, \<open>mimeType\<close>): none of them is a
  built-in member of a string, a number, a boolean or an array, so only an object can
  have one. Reading a property of \<open>undefined\<close> or \<open>null\<close> throws a TypeError; the
  wording of the message is V8's.
\<close>

fun own_prop :: "js_value \<Rightarrow> string \<Rightarrow> js_value" where
  "own_prop (JObj fs) k = (case map_of fs k of None \<Rightarrow> JUndefined | Some v \<Rightarrow> v)"
| "own_prop v k = JUndefined"

definition cannot_read :: "js_value \<Rightarrow> string \<Rightarrow> js_error" where
  "cannot_read v k = JsError ''TypeError''
     (Some (''Cannot read properties of '' @ (if v = JNull then ''null'' else ''undefined'') @
            '' (reading '' @ [CHR 0x27] @ k @ [CHR 0x27] @ '')''))"

definition get_prop :: "js_value \<Rightarrow> string \<Rightarrow> js_error + js_value" where
  "get_prop v k = (if nullish v then Inl (cannot_read v k) else Inr (own_prop v k))"

text \<open>
  The default string form (\<open>String(v)\<close> and \<open>`${v}`\<close>). An array joins the string
  forms of its elements with commas, \<open>undefined\<close> and \<open>null\<close> elements giving the empty
  string. A plain object prints as \<open>[object Object]\<close>, unless it has an own property
  \<open>toString\<close>: that property is data, not a function, so neither it nor \<open>valueOf\<close>
  yields a primitive and the conversion throws a TypeError.
\<close>

definition not_primitive :: js_error where
  "not_primitive = JsError ''TypeError'' (Some ''Cannot convert object to primitive value'')"

fun ToString :: "js_value \<Rightarrow> js_error + string"
  and join_elements :: "js_value list \<Rightarrow> js_error + string" where
  "ToString JUndefined = Inr ''undefined''"
| "ToString JNull = Inr ''null''"
| "ToString (JBool b) = Inr (if b then ''true'' else ''false'')"
| "ToString (JNum n) = Inr n"
| "ToString (JStr s) = Inr s"
| "ToString (JArr vs) = join_elements vs"
| "ToString (JObj fs) =
     (if ''toString'' \<in> set (map fst fs) then Inl not_primitive else Inr ''[object Object]'')"
| "join_elements [] = Inr []"
| "join_elements (v # vs) =
     (case (if v = JUndefined \<or> v = JNull then Inr [] else ToString v) of
        Inl e \<Rightarrow> Inl e
      | Inr s \<Rightarrow>
          if vs = [] then Inr s
          else (case join_elements vs of Inl e \<Rightarrow> Inl e | Inr t \<Rightarrow> Inr (s @ '','' @ t)))"

section \<open>The content normalizer (server.js, lines 39-46 and 161-200)\<close>

text \<open>
  A content part as the backend takes it: \<open>{text: v}\<close> or
  \<open>{inlineData: {data: d, mimeType: m}}\<close>.
\<close>

datatype part = TextPart js_value | InlineData js_value js_value

text \<open>
  The regular expression \<open>/^data:([^;]+);base64,(.+)$/\<close>. The first group cannot
  cross a semicolon and must be followed by one, so it is the text up to the first
  semicolon and must not be empty; the second group is the rest of the string, which
  must not be empty and, since \<open>.\<close> matches no line terminator and \<open>$\<close> only the end
  of the string, contains none of LF, CR, U+2028 and U+2029.
\<close>

definition line_terminator_free :: "string \<Rightarrow> bool" where
  "line_terminator_free s =
     (CHR 0x0A \<notin> set s \<and> CHR 0x0D \<notin> set s \<and>
      \<not> str_includes s [CHR 0xE2, CHR 0x80, CHR 0xA8] \<and>
      \<not> str_includes s [CHR 0xE2, CHR 0x80, CHR 0xA9])"

definition strip_prefix :: "string \<Rightarrow> string \<Rightarrow> string option" where
  "strip_prefix p s = (if startsWith s p then Some (drop (length p) s) else None)"

definition match_data_uri :: "string \<Rightarrow> (string \<times> string) option" where
  "match_data_uri url =
     (case strip_prefix ''data:'' url of
        None \<Rightarrow> None
      | Some rest \<Rightarrow>
          let mimeType = takeWhile (\<lambda>c. c \<noteq> CHR '';'') rest in
          if mimeType = [] then None
          else (case strip_prefix '';base64,'' (dropWhile (\<lambda>c. c \<noteq> CHR '';'') rest) of
                  None \<Rightarrow> None
                | Some base64Data \<Rightarrow>
                    if base64Data \<noteq> [] \<and> line_terminator_free base64Data
                    then Some (mimeType, base64Data) else None))"

text \<open>
  The host the normalizer reads files through: \<open>path.join(rootDir, p)\<close>,
  \<open>mime.lookup\<close> (\<open>None\<close> is its \<open>false\<close>) and \<open>fs.readFileSync\<close>, which throws
  when the file cannot be read.
\<close>

record host =
  path_join_rootDir :: "string \<Rightarrow> string"
  mime_lookup :: "string \<Rightarrow> string option"
  readFileSync :: "string \<Rightarrow> js_error + string"

text \<open>\<open>Buffer.toString("base64")\<close>: the standard alphabet, padded with \<open>=\<close>.\<close>

definition b64_alphabet :: string where
  "b64_alphabet = ''ABCDEFGHIJKLMNOPQRSTUVWXYZabcdefghijklmnopqrstuvwxyz0123456789+/''"

definition b64_digit :: "nat \<Rightarrow> char" where
  "b64_digit n = b64_alphabet ! (n mod 64)"

fun base64 :: "string \<Rightarrow> string" where
  "base64 [] = []"
| "base64 [a] =
     (let x = of_char a :: nat
      in [b64_digit (x div 4), b64_digit ((x mod 4) * 16), CHR ''='', CHR ''=''])"
| "base64 [a, b] =
     (let x = of_char a :: nat; y = of_char b :: nat
      in [b64_digit (x div 4), b64_digit ((x mod 4) * 16 + y div 16),
          b64_digit ((y mod 16) * 4), CHR ''=''])"
| "base64 (a # b # c # rest) =
     (let x = of_char a :: nat; y = of_char b :: nat; z = of_char c :: nat
      in [b64_digit (x div 4), b64_digit ((x mod 4) * 16 + y div 16),
          b64_digit ((y mod 16) * 4 + z div 64), b64_digit (z mod 64)] @ base64 rest)"

definition fileToGenerativePart :: "host \<Rightarrow> string \<Rightarrow> string \<Rightarrow> js_error + part" where
  "fileToGenerativePart h filePath mimeType =
     (case readFileSync h filePath of
        Inl e \<Rightarrow> Inl e
      | Inr bytes \<Rightarrow> Inr (InlineData (JStr (base64 bytes)) (JStr mimeType)))"

text \<open>\<open>a || b\<close> on a looked-up mime type: the default when the lookup is falsy.\<close>

definition mime_or_default :: "string option \<Rightarrow> string" where
  "mime_or_default m = (case m of None \<Rightarrow> ''image/jpeg'' | Some t \<Rightarrow> if t = [] then ''image/jpeg'' else t)"

definition unsupported :: part where
  "unsupported = TextPart (JStr (map char_of
     [0xE4, 0xB8, 0x8D, 0xE6, 0x94, 0xAF, 0xE6, 0x8C, 0x81, 0xE7, 0x9A, 0x84, 0xE5, 0x86,
      0x85, 0xE5, 0xAE, 0xB9, 0xE7, 0xB1, 0xBB, 0xE5, 0x9E, 0x8B :: nat]))"

definition not_a_function :: "string \<Rightarrow> js_error" where
  "not_a_function what = JsError ''TypeError'' (Some (what @ '' is not a function''))"

text \<open>
  The callback of \<open>content.map\<close>. \<open>item.image_url.url.startsWith\<close> is a method call:
  it throws when \<open>image_url\<close> or \<open>url\<close> is absent and when \<open>url\<close> is not a string.
  A \<open>data:\<close> URL that the regular expression rejects falls through to the last
  \<open>return\<close>, since the test for \<open>/uploads/\<close> is its \<open>else\<close> branch.
\<close>

definition process_item :: "host \<Rightarrow> js_value \<Rightarrow> js_error + part" where
  "process_item h item =
     (case get_prop item ''type'' of
        Inl e \<Rightarrow> Inl e
      | Inr ty \<Rightarrow>
          if ty = JStr ''text'' then Inr (TextPart (own_prop item ''text''))
          else if ty = JStr ''image_url'' then
            (case get_prop (own_prop item ''image_url'') ''url'' of
               Inl e \<Rightarrow> Inl e
             | Inr url \<Rightarrow>
                 (case url of
                    JStr u \<Rightarrow>
                      if startsWith u ''data:'' then
                        (case match_data_uri u of
                           Some (mimeType, base64Data) \<Rightarrow>
                             Inr (InlineData (JStr base64Data) (JStr mimeType))
                         | None \<Rightarrow> Inr unsupported)
                      else if startsWith u ''/uploads/'' then
                        (let filePath = path_join_rootDir h u
                         in fileToGenerativePart h filePath (mime_or_default (mime_lookup h filePath)))
                      else Inr unsupported
                  | JUndefined \<Rightarrow> Inl (cannot_read JUndefined ''startsWith'')
                  | JNull \<Rightarrow> Inl (cannot_read JNull ''startsWith'')
                  | _ \<Rightarrow> Inl (not_a_function ''item.image_url.url.startsWith'')))
          else Inr unsupported)"

text \<open>\<open>Array.prototype.map\<close> with a callback that may throw: the first throw ends it.\<close>

fun map_items :: "('a \<Rightarrow> js_error + 'b) \<Rightarrow> 'a list \<Rightarrow> js_error + 'b list" where
  "map_items f [] = Inr []"
| "map_items f (x # xs) =
     (case f x of
        Inl e \<Rightarrow> Inl e
      | Inr y \<Rightarrow> (case map_items f xs of Inl e \<Rightarrow> Inl e | Inr ys \<Rightarrow> Inr (y # ys)))"

definition processMessageContent :: "host \<Rightarrow> js_value \<Rightarrow> js_error + part list" where
  "processMessageContent h content =
     (case content of
        JStr s \<Rightarrow> Inr [TextPart (JStr s)]
      | JArr items \<Rightarrow> map_items (process_item h) items
      | _ \<Rightarrow> (case ToString content of Inl e \<Rightarrow> Inl e | Inr s \<Rightarrow> Inr [TextPart (JStr s)]))"

section \<open>The history translator (server.js, lines 223-245)\<close>

datatype turn = Turn (role: string) (parts: "part list")

text \<open>\<open>Array.prototype.slice(start, end)\<close>: a negative index counts from the end.\<close>

definition relative_index :: "nat \<Rightarrow> int \<Rightarrow> nat" where
  "relative_index len i = (if i < 0 then nat (max (int len + i) 0) else min (nat i) len)"

definition slice :: "'a list \<Rightarrow> int \<Rightarrow> int \<Rightarrow> 'a list" where
  "slice xs start end =
     (let k = relative_index (length xs) start; final = relative_index (length xs) end
      in take (final - k) (drop k xs))"

definition cannot_destructure :: "js_value \<Rightarrow> js_error" where
  "cannot_destructure v = JsError ''TypeError''
     (Some (''Cannot destructure property '' @ [CHR 0x27] @ ''role'' @ [CHR 0x27] @ '' of '' @
            [CHR 0x27] @ ''message'' @ [CHR 0x27] @ '' as it is '' @
            (if v = JNull then ''null'' else ''undefined'') @ ''.''))"

text \<open>
  The body of the \<open>for\<close> loop: one message to one turn. A system message is rendered
  by the template literal, whatever its content is; any other message goes through the
  normalizer.
\<close>

definition translate_message :: "host \<Rightarrow> js_value \<Rightarrow> js_error + turn" where
  "translate_message h msg =
     (if nullish msg then Inl (cannot_destructure msg)
      else
        let role = own_prop msg ''role'';
            content = own_prop msg ''content'';
            geminiRole = (if role = JStr ''assistant'' then ''model'' else ''user'')
        in (case (if role = JStr ''system''
                  then (case ToString content of
                          Inl e \<Rightarrow> Inl e
                        | Inr s \<Rightarrow> Inr [TextPart (JStr (''[SYSTEM]: '' @ s))])
                  else (case content of
                          JStr c \<Rightarrow> Inr [TextPart (JStr c)]
                        | _ \<Rightarrow> processMessageContent h content)) of
              Inl e \<Rightarrow> Inl e
            | Inr processedContent \<Rightarrow> Inr (Turn geminiRole processedContent)))"

fun history_loop :: "host \<Rightarrow> js_value list \<Rightarrow> turn list \<Rightarrow> js_error + turn list" where
  "history_loop h [] history = Inr history"
| "history_loop h (msg # rest) history =
     (case translate_message h msg of
        Inl e \<Rightarrow> Inl e
      | Inr t \<Rightarrow> history_loop h rest (history @ [t]))"

definition translate_history :: "host \<Rightarrow> js_value list \<Rightarrow> js_error + turn list" where
  "translate_history h messages = history_loop h (slice messages 0 (- 1)) []"

text \<open>\<open>messages[messages.length - 1]\<close>, which is \<open>undefined\<close> for an empty list.\<close>

definition last_message :: "js_value list \<Rightarrow> js_value" where
  "last_message messages =
     (if messages = [] then JUndefined else messages ! (length messages - 1))"

definition last_message_parts :: "host \<Rightarrow> js_value list \<Rightarrow> js_error + part list" where
  "last_message_parts h messages =
     (case get_prop (last_message messages) ''content'' of
        Inl e \<Rightarrow> Inl e
      | Inr content \<Rightarrow> processMessageContent h content)"

section \<open>The backend and the HTTP response\<close>

text \<open>
  The generation parameters, in the order \<open>temperature\<close>, \<open>topP\<close>, \<open>topK\<close>,
  \<open>maxOutputTokens\<close>, \<open>responseModalities\<close>, \<open>responseMimeType\<close>.
\<close>

datatype generation_config =
  GenerationConfig js_value js_value js_value js_value "js_value list" string

text \<open>
  What a stream delivers: the texts of its chunks in order, and the error that ends it
  if it does not complete. A stream that never ends is outside the model.
\<close>

datatype chunk_stream = ChunkStream (fragments: "string list") (failure: "js_error option")

text \<open>
  The backend SDK, with a state \<open>'b\<close> of its own. \<open>sendMessageStream\<close> is
  \<open>model.startChat({generationConfig, history}).sendMessageStream(parts)\<close>, and
  \<open>sendMessage\<close> likewise; a result carries what \<open>result.response.text()\<close> gives,
  a string or a throw.
\<close>

record 'b backend =
  sendMessageStream ::
    "'b \<Rightarrow> generative_model \<Rightarrow> generation_config \<Rightarrow> turn list \<Rightarrow> part list
       \<Rightarrow> (js_error + chunk_stream) \<times> 'b"
  sendMessage ::
    "'b \<Rightarrow> generative_model \<Rightarrow> generation_config \<Rightarrow> turn list \<Rightarrow> part list
       \<Rightarrow> (js_error + (js_error + string)) \<times> 'b"
  generateContent ::
    "'b \<Rightarrow> generative_model \<Rightarrow> part list \<Rightarrow> (js_error + (js_error + string)) \<times> 'b"

text \<open>
  A frame is \<open>data: \<close>, the JSON text of an event, and two newlines; the model keeps the
  event. A chunk event has one choice, with index, delta and finish reason. \<open>Done\<close>
  is the literal frame \<open>data: [DONE]\<close>.
\<close>

datatype delta = RoleDelta string | ContentDelta string | EmptyDelta

datatype chunk_event =
  ChunkEvent (chunk_id: string) (chunk_object: string) (created: nat) (chunk_model: string)
    (choice_index: nat) (choice_delta: delta) (finish_reason: "string option")

datatype sse_frame = Data chunk_event | DataError "string option" string | Done

text \<open>
  The bodies \<open>res.json\<close> sends: a completion (id, creation time, model, content, finish
  reason, the three usage counts), an error envelope \<open>{error: {message, type}}\<close>, and
  the two replies of the generate endpoint.
\<close>

datatype json_reply =
    Completion string nat string string string int int int
  | ErrorReply "string option" string
  | GenerateOk string
  | GenerateFailed "string option"

record response =
  statusCode :: nat
  headers :: "(string \<times> string) list"
  written :: "sse_frame list"
  json :: "json_reply option"
  ended :: bool

definition fresh_response :: response where
  "fresh_response = \<lparr>statusCode = 200, headers = [], written = [], json = None, ended = False\<rparr>"

definition setHeader :: "string \<Rightarrow> string \<Rightarrow> response \<Rightarrow> response" where
  "setHeader k v r = r\<lparr>headers := headers r @ [(k, v)]\<rparr>"

definition res_write :: "sse_frame \<Rightarrow> response \<Rightarrow> response" where
  "res_write f r = r\<lparr>written := written r @ [f]\<rparr>"

definition res_end :: "response \<Rightarrow> response" where
  "res_end r = r\<lparr>ended := True\<rparr>"

definition res_status :: "nat \<Rightarrow> response \<Rightarrow> response" where
  "res_status n r = r\<lparr>statusCode := n\<rparr>"

definition res_json :: "json_reply \<Rightarrow> response \<Rightarrow> response" where
  "res_json j r = r\<lparr>json := Some j, ended := True\<rparr>"

text \<open>What a backend call can change: the response and the backend's state.\<close>

record 'b io =
  res :: response
  backend_state :: 'b

definition map_res :: "(response \<Rightarrow> response) \<Rightarrow> 'b io state \<Rightarrow> 'b io state" where
  "map_res f s = s\<lparr>world := (world s)\<lparr>res := f (res (world s))\<rparr>\<rparr>"

definition internal_error :: "js_error \<Rightarrow> response \<Rightarrow> response" where
  "internal_error err r =
     res_json (ErrorReply (message err) ''internal_server_error'') (res_status 500 r)"

text \<open>A clock reading in decimal, as the template literal prints \<open>Date.now()\<close>.\<close>

function decimal :: "nat \<Rightarrow> string" where
  "decimal n =
     (if n < 10 then [char_of (48 + n)] else decimal (n div 10) @ [char_of (48 + n mod 10)])"
  by pat_completeness auto
termination
  by (relation "measure (\<lambda>n. n)") auto

declare decimal.simps [simp del]

section \<open>The streaming branch (server.js, lines 248-343)\<close>

definition startEvent :: "string \<Rightarrow> nat \<Rightarrow> chunk_event" where
  "startEvent responseId created' =
     ChunkEvent responseId ''chat.completion.chunk'' created' model_name 0
       (RoleDelta ''assistant'') None"

definition chunkEvent :: "string \<Rightarrow> nat \<Rightarrow> string \<Rightarrow> chunk_event" where
  "chunkEvent responseId created' chunkText =
     ChunkEvent responseId ''chat.completion.chunk'' created' model_name 0
       (ContentDelta chunkText) None"

definition finishEvent :: "string \<Rightarrow> nat \<Rightarrow> chunk_event" where
  "finishEvent responseId created' =
     ChunkEvent responseId ''chat.completion.chunk'' created' model_name 0
       EmptyDelta (Some ''stop'')"

text \<open>
  The \<open>for await\<close> loop over the chunks that arrive: \<open>if (chunkText)\<close> lets only a
  non-empty text through to \<open>res.write\<close>.
\<close>

fun write_chunks :: "string \<Rightarrow> nat \<Rightarrow> string list \<Rightarrow> response \<Rightarrow> response" where
  "write_chunks responseId created' [] r = r"
| "write_chunks responseId created' (chunkText # rest) r =
     write_chunks responseId created' rest
       (if chunkText \<noteq> [] then res_write (Data (chunkEvent responseId created' chunkText)) r
        else r)"

text \<open>
  The closure handed to \<open>executeWithRetry\<close>: it opens the stream, writes a chunk per
  non-empty fragment as it arrives, and only when the stream has completed writes the
  finish chunk and \<open>[DONE]\<close> and ends the response. An error of the stream leaves
  what was written in place and is thrown to the executor.
\<close>

definition stream_attempt ::
  "'b backend \<Rightarrow> generation_config \<Rightarrow> turn list \<Rightarrow> part list \<Rightarrow> string \<Rightarrow> nat
     \<Rightarrow> ('b io, unit) api_call" where
  "stream_attempt be chatConfig history lastMessageParts responseId created' model w =
     (case sendMessageStream be (backend_state w) model chatConfig history lastMessageParts of
        (Inl err, b) \<Rightarrow> (Inl err, w\<lparr>backend_state := b\<rparr>)
      | (Inr streamResult, b) \<Rightarrow>
          let r = write_chunks responseId created' (fragments streamResult) (res w)
          in (case failure streamResult of
                Some err \<Rightarrow> (Inl err, \<lparr>res = r, backend_state = b\<rparr>)
              | None \<Rightarrow>
                  (Inr (),
                   \<lparr>res = res_end (res_write Done
                            (res_write (Data (finishEvent responseId created')) r)),
                    backend_state = b\<rparr>)))"

definition stream_branch ::
  "string list \<Rightarrow> 'b backend \<Rightarrow> generation_config \<Rightarrow> turn list \<Rightarrow> part list \<Rightarrow> nat \<Rightarrow> nat
     \<Rightarrow> 'b io state \<Rightarrow> 'b io state" where
  "stream_branch apiKeyPool be chatConfig history lastMessageParts now_id now_created s =
     (let responseId = ''chatcmpl-'' @ decimal now_id;
          created' = now_created div 1000;
          s1 = map_res (\<lambda>r. res_write (Data (startEvent responseId created'))
                   (setHeader ''Connection'' ''keep-alive''
                     (setHeader ''Cache-Control'' ''no-cache''
                       (setHeader ''Content-Type'' ''text/event-stream'' r)))) s
      in (case executeWithRetry_default apiKeyPool
                 (stream_attempt be chatConfig history lastMessageParts responseId created') s1 of
            (Inr u, s2) \<Rightarrow> s2
          | (Inl err, s2) \<Rightarrow>
              map_res (\<lambda>r. res_end (res_write Done
                         (res_write (DataError (message err) ''server_error'') r))) s2))"

section \<open>The non-streaming branch (server.js, lines 344-389)\<close>

definition send_attempt ::
  "'b backend \<Rightarrow> generation_config \<Rightarrow> turn list \<Rightarrow> part list
     \<Rightarrow> ('b io, js_error + string) api_call" where
  "send_attempt be chatConfig history lastMessageParts model w =
     (case sendMessage be (backend_state w) model chatConfig history lastMessageParts of
        (r, b) \<Rightarrow> (r, w\<lparr>backend_state := b\<rparr>))"

definition non_stream_branch ::
  "string list \<Rightarrow> 'b backend \<Rightarrow> generation_config \<Rightarrow> turn list \<Rightarrow> part list \<Rightarrow> nat \<Rightarrow> nat
     \<Rightarrow> 'b io state \<Rightarrow> 'b io state" where
  "non_stream_branch apiKeyPool be chatConfig history lastMessageParts now_id now_created s =
     (case executeWithRetry_default apiKeyPool
             (send_attempt be chatConfig history lastMessageParts) s of
        (Inr result, s1) \<Rightarrow>
          (case result of
             Inr content \<Rightarrow>
               map_res (res_json (Completion (''chatcmpl-'' @ decimal now_id)
                          (now_created div 1000) model_name content ''stop'' (- 1) (- 1) (- 1))) s1
           | Inl err \<Rightarrow> map_res (internal_error err) s1)
      | (Inl err, s1) \<Rightarrow> map_res (internal_error err) s1)"

section \<open>POST /v1/chat/completions (server.js, lines 203-399)\<close>

record chat_body =
  messages :: "js_value list"
  temperature :: js_value
  max_tokens :: js_value
  stream :: js_value

definition chatConfig_of :: "chat_body \<Rightarrow> generation_config" where
  "chatConfig_of body =
     GenerationConfig
       (if temperature body \<noteq> JUndefined then temperature body else JNum ''0.1'')
       (JNum ''0.95'') (JNum ''64'')
       (if max_tokens body \<noteq> JUndefined then max_tokens body else JNum ''500'')
       [] ''text/plain''"

text \<open>
  The handler, from the cursor and the backend's state before the request to the
  response, the cursor and the backend's state after it. The two clock readings are
  the two calls of \<open>Date.now()\<close>. The outer \<open>catch\<close> answers a throw of the
  translation with status 500.
\<close>

definition chat_completions ::
  "string list \<Rightarrow> host \<Rightarrow> 'b backend \<Rightarrow> nat \<Rightarrow> nat \<Rightarrow> chat_body \<Rightarrow> 'b state \<Rightarrow> 'b io state" where
  "chat_completions apiKeyPool h be now_id now_created body s0 =
     (let s = \<lparr>currentApiKeyIndex = currentApiKeyIndex s0,
               world = \<lparr>res = fresh_response, backend_state = world s0\<rparr>\<rparr>
      in (case translate_history h (messages body) of
            Inl err \<Rightarrow> map_res (internal_error err) s
          | Inr history \<Rightarrow>
              (case last_message_parts h (messages body) of
                 Inl err \<Rightarrow> map_res (internal_error err) s
               | Inr lastMessageParts \<Rightarrow>
                   if truthy (stream body)
                   then stream_branch apiKeyPool be (chatConfig_of body) history lastMessageParts
                          now_id now_created s
                   else non_stream_branch apiKeyPool be (chatConfig_of body) history
                          lastMessageParts now_id now_created s)))"

section \<open>POST /backends/chat-completions/generate (server.js, lines 426-477)\<close>

record uploaded_file =
  path :: string
  mimetype :: string

record generate_body =
  prompt :: js_value
  images :: js_value

definition prompt_required :: string where
  "prompt_required = map char_of
     [0xE5, 0xBF, 0x85, 0xE9, 0xA1, 0xBB, 0xE6, 0x8F, 0x90, 0xE4, 0xBE, 0x9B, 0x70, 0x72,
      0x6F, 0x6D, 0x70, 0x74, 0xE5, 0x8F, 0x82, 0xE6, 0x95, 0xB0 :: nat]"

text \<open>The loop over the uploaded files.\<close>

fun file_parts :: "host \<Rightarrow> uploaded_file list \<Rightarrow> part list \<Rightarrow> js_error + part list" where
  "file_parts h [] messageParts = Inr messageParts"
| "file_parts h (file # rest) messageParts =
     (let mimeType = (if mimetype file \<noteq> [] then mimetype file
                      else mime_or_default (mime_lookup h (path file)))
      in (case fileToGenerativePart h (path file) mimeType of
            Inl e \<Rightarrow> Inl e
          | Inr imagePart \<Rightarrow> file_parts h rest (messageParts @ [imagePart])))"

text \<open>
  \<open>for (const image of images)\<close>: an array gives its elements, a string its
  characters (one-character strings, which have no \<open>data\<close>), anything else is not
  iterable.
\<close>

definition not_iterable :: js_error where
  "not_iterable = JsError ''TypeError'' (Some ''images is not iterable'')"

definition iterate :: "js_value \<Rightarrow> js_error + js_value list" where
  "iterate v =
     (case v of
        JArr xs \<Rightarrow> Inr xs
      | JStr s \<Rightarrow> Inr (map (\<lambda>c. JStr [c]) s)
      | _ \<Rightarrow> Inl not_iterable)"

fun image_parts :: "js_value list \<Rightarrow> part list \<Rightarrow> js_error + part list" where
  "image_parts [] messageParts = Inr messageParts"
| "image_parts (img # rest) messageParts =
     (case get_prop img ''data'' of
        Inl e \<Rightarrow> Inl e
      | Inr d \<Rightarrow>
          if truthy d \<and> truthy (own_prop img ''mimeType'')
          then image_parts rest (messageParts @ [InlineData d (own_prop img ''mimeType'')])
          else image_parts rest messageParts)"

definition generate_attempt :: "'b backend \<Rightarrow> part list \<Rightarrow> ('b io, js_error + string) api_call" where
  "generate_attempt be messageParts model w =
     (case generateContent be (backend_state w) model messageParts of
        (r, b) \<Rightarrow> (r, w\<lparr>backend_state := b\<rparr>))"

definition generate_failed :: "js_error \<Rightarrow> response \<Rightarrow> response" where
  "generate_failed err r = res_json (GenerateFailed (message err)) (res_status 500 r)"

definition generate ::
  "string list \<Rightarrow> host \<Rightarrow> 'b backend \<Rightarrow> generate_body \<Rightarrow> uploaded_file list \<Rightarrow> 'b state
     \<Rightarrow> 'b io state" where
  "generate apiKeyPool h be body uploadedFiles s0 =
     (let s = \<lparr>currentApiKeyIndex = currentApiKeyIndex s0,
               world = \<lparr>res = fresh_response, backend_state = world s0\<rparr>\<rparr>
      in if \<not> truthy (prompt body)
         then map_res (\<lambda>r. res_json (GenerateFailed (Some prompt_required)) (res_status 400 r)) s
         else
           (case file_parts h uploadedFiles [TextPart (prompt body)] of
              Inl err \<Rightarrow> map_res (generate_failed err) s
            | Inr parts1 \<Rightarrow>
                (case iterate (if truthy (images body) then images body else JArr []) of
                   Inl err \<Rightarrow> map_res (generate_failed err) s
                 | Inr images' \<Rightarrow>
                     (case image_parts images' parts1 of
                        Inl err \<Rightarrow> map_res (generate_failed err) s
                      | Inr messageParts \<Rightarrow>
                          (case executeWithRetry_default apiKeyPool
                                  (generate_attempt be messageParts) s of
                             (Inr result, s1) \<Rightarrow>
                               (case result of
                                  Inr text' \<Rightarrow> map_res (res_json (GenerateOk text')) s1
                                | Inl err \<Rightarrow> map_res (generate_failed err) s1)
                           | (Inl err, s1) \<Rightarrow> map_res (generate_failed err) s1)))))"

section \<open>Observations and examples\<close>

subsection \<open>Reading a response and listening to the backend\<close>

text \<open>The three headers of an event stream, in the order the handler sets them.\<close>

definition stream_headers :: "(string \<times> string) list" where
  "stream_headers = [(''Content-Type'', ''text/event-stream''), (''Cache-Control'', ''no-cache''),
     (''Connection'', ''keep-alive'')]"

text \<open>The texts of the content-delta chunks among the frames written, in order.\<close>

fun content_deltas :: "sse_frame list \<Rightarrow> string list" where
  "content_deltas [] = []"
| "content_deltas (Data (ChunkEvent i ob cr mo ix (ContentDelta t) fr) # fs) = t # content_deltas fs"
| "content_deltas (f # fs) = content_deltas fs"

text \<open>
  A backend wrapped so that its state also keeps every fragment that a stream it
  opened has delivered; the wrapped backend answers as the original.
\<close>

definition logging :: "'b backend \<Rightarrow> (string list \<times> 'b) backend" where
  "logging be =
     \<lparr>sendMessageStream = (\<lambda>lb model cfg hist ps.
        case sendMessageStream be (snd lb) model cfg hist ps of
          (r, b) \<Rightarrow> (r, (fst lb @ (case r of Inr st \<Rightarrow> fragments st | Inl e \<Rightarrow> []), b))),
      sendMessage = (\<lambda>lb model cfg hist ps.
        case sendMessage be (snd lb) model cfg hist ps of (r, b) \<Rightarrow> (r, (fst lb, b))),
      generateContent = (\<lambda>lb model ps.
        case generateContent be (snd lb) model ps of (r, b) \<Rightarrow> (r, (fst lb, b)))\<rparr>"

text \<open>The content deltas written so far are the non-empty fragments delivered so far.\<close>

definition deltas_match_log :: "(string list \<times> 'b) io \<Rightarrow> bool" where
  "deltas_match_log w =
     (content_deltas (written (res w)) = filter (\<lambda>t. t \<noteq> []) (fst (backend_state w)))"

text \<open>
  A run of broken attempts: starting at cursor \<open>c\<close> and backend state \<open>b\<close>, each
  attempt opens a stream that delivers the listed fragments and then breaks with the
  listed rate-limited error, leaving the backend in the listed state; the next attempt
  starts at the next cursor. \<open>state_after\<close> is the backend's state after the run.
\<close>

fun breaks_from ::
  "'b backend \<Rightarrow> string list \<Rightarrow> generation_config \<Rightarrow> turn list \<Rightarrow> part list \<Rightarrow> js_index \<Rightarrow> 'b
     \<Rightarrow> (string list \<times> js_error \<times> 'b) list \<Rightarrow> bool" where
  "breaks_from be apiKeyPool cfg hist ps c b [] = True"
| "breaks_from be apiKeyPool cfg hist ps c b ((fs, err, b') # rest) =
     (sendMessageStream be b (getGenerativeModel apiKeyPool c) cfg hist ps =
        (Inr (ChunkStream fs (Some err)), b') \<and>
      is429Error err \<and>
      breaks_from be apiKeyPool cfg hist ps (next_index apiKeyPool c) b' rest)"

definition state_after :: "'b \<Rightarrow> (string list \<times> js_error \<times> 'b) list \<Rightarrow> 'b" where
  "state_after b breaks = (if breaks = [] then b else snd (snd (last breaks)))"

text \<open>Two worlds that differ only in the record of fragments.\<close>

definition same_but_log :: "(string list \<times> 'b) io \<Rightarrow> 'b io \<Rightarrow> bool" where
  "same_but_log w v = (res w = res v \<and> snd (backend_state w) = backend_state v)"

subsection \<open>Example inputs\<close>

text \<open>
  An item tagged \<open>image_url\<close> with a given URL, and the data URI that a client builds
  from a mime type and the bytes of an image.
\<close>

definition image_item :: "string \<Rightarrow> js_value" where
  "image_item url = JObj [(''type'', JStr ''image_url''), (''image_url'', JObj [(''url'', JStr url)])]"

definition data_uri :: "string \<Rightarrow> string \<Rightarrow> string" where
  "data_uri mimeType bytes = ''data:'' @ mimeType @ '';base64,'' @ base64 bytes"

text \<open>
  A host with one uploaded file, a conversation of four messages and its history, a
  streaming request, and a backend whose first credential is over its quota after one
  fragment and an empty one.
\<close>

definition example_host :: host where
  "example_host =
     \<lparr>path_join_rootDir = (\<lambda>p. ''/srv/app'' @ p),
      mime_lookup = (\<lambda>p. None),
      readFileSync = (\<lambda>p. if p = ''/srv/app/uploads/1-cat.png'' then Inr ''Man''
                          else Inl (JsError ''Error'' (Some ''ENOENT: no such file or directory'')))\<rparr>"

definition example_messages :: "js_value list" where
  "example_messages =
     [JObj [(''role'', JStr ''system''),
            (''content'', JArr [JObj [(''type'', JStr ''text''), (''text'', JStr ''be brief'')], JNum ''3''])],
      JObj [(''role'', JStr ''assistant''), (''content'', JStr ''hi'')],
      JObj [(''role'', JStr ''user''),
            (''content'', JArr [JObj [(''type'', JStr ''text''), (''text'', JStr ''what is this?'')],
                                image_item ''data:image/png;base64,TWFu'',
                                JObj [(''type'', JStr ''audio'')]])],
      JObj [(''role'', JStr ''user''), (''content'', JStr ''and now?'')]]"

definition example_history :: "turn list" where
  "example_history =
     [Turn ''user'' [TextPart (JStr ''[SYSTEM]: [object Object],3'')],
      Turn ''model'' [TextPart (JStr ''hi'')],
      Turn ''user'' [TextPart (JStr ''what is this?''),
                     InlineData (JStr ''TWFu'') (JStr ''image/png''),
                     unsupported]]"

definition example_body :: chat_body where
  "example_body =
     \<lparr>messages = example_messages, temperature = JUndefined, max_tokens = JNum ''64'',
      stream = JBool True\<rparr>"

definition quota_error :: js_error where
  "quota_error = JsError ''Error'' (Some ''[429 Too Many Requests] quota exceeded'')"

definition example_backend :: "nat backend" where
  "example_backend =
     \<lparr>sendMessageStream = (\<lambda>b model cfg hist ps.
        (if apiKey model = Some ''key-A''
         then Inr (ChunkStream [''Hel'', []] (Some quota_error))
         else Inr (ChunkStream [''Hel'', ''lo''] None), Suc b)),
      sendMessage = (\<lambda>b model cfg hist ps. (Inr (Inr ''Hello''), Suc b)),
      generateContent = (\<lambda>b model ps. (Inr (Inr ''a cat''), Suc b))\<rparr>"

text \<open>A backend whose first two credentials are over their quota.\<close>

definition flaky_backend :: "nat backend" where
  "flaky_backend =
     \<lparr>sendMessageStream = (\<lambda>b model cfg hist ps.
        (if apiKey model = Some ''key-A'' then Inr (ChunkStream [''Hel''] (Some quota_error))
         else if apiKey model = Some ''key-B'' then Inr (ChunkStream [''Hel'', []] (Some quota_error))
         else Inr (ChunkStream [''Hel'', ''lo''] None), Suc b)),
      sendMessage = (\<lambda>b model cfg hist ps. (Inr (Inr ''Hello''), Suc b)),
      generateContent = (\<lambda>b model ps. (Inr (Inr ''a cat''), Suc b))\<rparr>"

section \<open>Properties of the credential rotator and the retry executor\<close>

subsection \<open>Auxiliary facts\<close>

lemma snd_switch [simp]: "snd (switchToNextApiKey pool c) = next_index pool c"
  by (simp add: switchToNextApiKey_def Let_def)

lemma fst_switch [simp]: "fst (switchToNextApiKey pool c) = pool_at pool (next_index pool c)"
  by (simp add: switchToNextApiKey_def Let_def)

lemma switch_times_Idx:
  assumes "1 \<le> length apiKeyPool" "i < length apiKeyPool"
  shows "switch_times apiKeyPool k (Idx i) =
     (map (\<lambda>j. Some (apiKeyPool ! ((i + j) mod length apiKeyPool))) [1..<Suc k],
      Idx ((i + k) mod length apiKeyPool))"
  using assms
proof (induction k arbitrary: i)
  case 0
  then show ?case by simp
next
  case (Suc k)
  let ?p = "length apiKeyPool"
  have pos: "0 < ?p" using Suc.prems by linarith
  then have lt: "(i + 1) mod ?p < ?p" by simp
  have sw: "switchToNextApiKey apiKeyPool (Idx i) = (Some (apiKeyPool ! ((i + 1) mod ?p)), Idx ((i + 1) mod ?p))"
    using pos lt by (simp add: switchToNextApiKey_def Let_def)
  have ih: "switch_times apiKeyPool k (Idx ((i + 1) mod ?p)) =
     (map (\<lambda>j. Some (apiKeyPool ! (((i + 1) mod ?p + j) mod ?p))) [1..<Suc k],
      Idx (((i + 1) mod ?p + k) mod ?p))"
    using Suc.IH [OF Suc.prems(1) lt] .
  have m: "\<And>j. ((i + 1) mod ?p + j) mod ?p = (i + Suc j) mod ?p"
    by (simp add: mod_add_left_eq)
  have u: "[1..<Suc (Suc k)] = 1 # map Suc [1..<Suc k]"
    by (simp add: upt_conv_Cons map_Suc_upt del: upt_Suc)
  show ?case
    by (simp only: switch_times.simps sw ih m u split list.map comp_def map_map)
qed

lemma str_includes_iff: "str_includes s p \<longleftrightarrow> (\<exists>pre suf. s = pre @ p @ suf)"
proof (induction s)
  case Nil
  then show ?case by auto
next
  case (Cons c cs)
  have sw: "startsWith (c # cs) p \<longleftrightarrow> (\<exists>suf. c # cs = p @ suf)"
    unfolding startsWith_def
    by (metis append_eq_conv_conj append_take_drop_id)
  show ?case
  proof
    assume "str_includes (c # cs) p"
    then consider "startsWith (c # cs) p" | "str_includes cs p" by auto
    then show "\<exists>pre suf. c # cs = pre @ p @ suf"
    proof cases
      case 1
      then obtain suf where "c # cs = p @ suf" using sw by blast
      then have "c # cs = [] @ p @ suf" by simp
      then show ?thesis by blast
    next
      case 2
      then obtain pre suf where "cs = pre @ p @ suf" using Cons.IH by blast
      then have "c # cs = (c # pre) @ p @ suf" by simp
      then show ?thesis by blast
    qed
  next
    assume "\<exists>pre suf. c # cs = pre @ p @ suf"
    then obtain pre suf where e: "c # cs = pre @ p @ suf" by blast
    show "str_includes (c # cs) p"
    proof (cases pre)
      case Nil
      then have "startsWith (c # cs) p" using e sw by auto
      then show ?thesis by simp
    next
      case (Cons a pre')
      then have "cs = pre' @ p @ suf" using e by simp
      then have "str_includes cs p" using Cons.IH by blast
      then show ?thesis by simp
    qed
  qed
qed

lemma str_includes_nonempty: "str_includes s p \<Longrightarrow> p \<noteq> [] \<Longrightarrow> s \<noteq> []"
  by (cases s) auto

lemma ex_in_four: "(\<exists>p. p \<in> {a, b, c, d} \<and> P p) \<longleftrightarrow> P a \<or> P b \<or> P c \<or> P d"
  by blast

lemma is429Error_iff:
  "is429Error err \<longleftrightarrow>
     (\<exists>msg p pre suf. message err = Some msg \<and>
        p \<in> {''429'', ''quota'', ''rate limit'', ''too many requests''} \<and> msg = pre @ p @ suf)"
proof (cases "message err")
  case None
  then show ?thesis by (simp add: is429Error_def)
next
  case (Some msg)
  let ?S = "{''429'', ''quota'', ''rate limit'', ''too many requests''}"
  have "(\<exists>msg' p pre suf. message err = Some msg' \<and> p \<in> ?S \<and> msg' = pre @ p @ suf) \<longleftrightarrow>
        (\<exists>p pre suf. p \<in> ?S \<and> msg = pre @ p @ suf)"
    unfolding Some by blast
  also have "\<dots> \<longleftrightarrow> (\<exists>p. p \<in> ?S \<and> str_includes msg p)"
    unfolding str_includes_iff by blast
  also have "\<dots> \<longleftrightarrow> str_includes msg ''429'' \<or> str_includes msg ''quota'' \<or>
      str_includes msg ''rate limit'' \<or> str_includes msg ''too many requests''"
    by (rule ex_in_four)
  also have "\<dots> \<longleftrightarrow> is429Error err"
    unfolding is429Error_def Some option.case
    using str_includes_nonempty [of msg] by fastforce
  finally show ?thesis by simp
qed

lemma retry_loop_fatal:
  assumes "retryCount < maxRetries"
    and "apiCallFn (getGenerativeModel apiKeyPool (currentApiKeyIndex s)) (world s) = (Inl err, w)"
    and "\<not> is429Error err"
  shows "retry_loop apiKeyPool apiCallFn maxRetries retryCount s = (Inl err, s\<lparr>world := w\<rparr>)"
  using assms by (subst retry_loop.simps) simp

lemma retry_loop_last:
  assumes "maxRetries = Suc retryCount"
    and "apiCallFn (getGenerativeModel apiKeyPool (currentApiKeyIndex s)) (world s) = (Inl err, w)"
  shows "retry_loop apiKeyPool apiCallFn maxRetries retryCount s = (Inl err, s\<lparr>world := w\<rparr>)"
  using assms by (subst retry_loop.simps) simp

lemma retry_loop_again:
  assumes "Suc retryCount < maxRetries"
    and "apiCallFn (getGenerativeModel apiKeyPool (currentApiKeyIndex s)) (world s) = (Inl err, w)"
    and "is429Error err"
  shows "retry_loop apiKeyPool apiCallFn maxRetries retryCount s =
         retry_loop apiKeyPool apiCallFn maxRetries (Suc retryCount)
           \<lparr>currentApiKeyIndex = next_index apiKeyPool (currentApiKeyIndex s), world = w\<rparr>"
proof -
  have "\<not> maxRetries - 1 \<le> retryCount" "retryCount < maxRetries" using assms(1) by linarith+
  then show ?thesis using assms(2,3) by (subst retry_loop.simps) simp
qed

lemma retry_loop_success:
  assumes "retryCount < maxRetries"
    and "apiCallFn (getGenerativeModel apiKeyPool (currentApiKeyIndex s)) (world s) = (Inr r, w)"
  shows "retry_loop apiKeyPool apiCallFn maxRetries retryCount s = (Inr r, s\<lparr>world := w\<rparr>)"
  using assms by (subst retry_loop.simps) simp

lemma retry_loop_spent:
  assumes "\<not> retryCount < maxRetries"
  shows "retry_loop apiKeyPool apiCallFn maxRetries retryCount s = (Inl all_keys_limited, s)"
  using assms by (subst retry_loop.simps) simp

lemma retry_loop_always_limited:
  assumes al: "\<forall>m w. \<exists>err w'. apiCallFn m w = (Inl err, w') \<and> is429Error err"
  shows "retryCount + Suc d = maxRetries \<Longrightarrow>
    \<exists>calls res w'. retry_loop apiKeyPool (spy apiCallFn) maxRetries retryCount
          \<lparr>currentApiKeyIndex = c, world = (log, w)\<rparr> =
        (res, \<lparr>currentApiKeyIndex = (next_index apiKeyPool ^^ d) c, world = (log @ calls, w')\<rparr>) \<and>
      map fst calls = map (\<lambda>k. getGenerativeModel apiKeyPool ((next_index apiKeyPool ^^ k) c)) [0..<Suc d] \<and>
      res = snd (last calls) \<and> (\<exists>err. res = Inl err \<and> is429Error err)"
proof (induction d arbitrary: retryCount c log w)
  case 0
  let ?m = "getGenerativeModel apiKeyPool c"
  obtain err w' where f: "apiCallFn ?m w = (Inl err, w')" and lim: "is429Error err"
    using al by blast
  have sp: "spy apiCallFn ?m (log, w) = (Inl err, (log @ [(?m, Inl err)], w'))"
    by (simp add: spy_def f)
  have "retry_loop apiKeyPool (spy apiCallFn) maxRetries retryCount
          \<lparr>currentApiKeyIndex = c, world = (log, w)\<rparr> =
        (Inl err, \<lparr>currentApiKeyIndex = c, world = (log @ [(?m, Inl err)], w')\<rparr>)"
    using 0 sp by (subst retry_loop_last [where err = err and w = "(log @ [(?m, Inl err)], w')"]) simp_all
  then show ?case using lim by simp
next
  case (Suc d)
  let ?m = "getGenerativeModel apiKeyPool c"
  let ?c' = "next_index apiKeyPool c"
  obtain err w' where f: "apiCallFn ?m w = (Inl err, w')" and lim: "is429Error err"
    using al by blast
  have sp: "spy apiCallFn ?m (log, w) = (Inl err, (log @ [(?m, Inl err)], w'))"
    by (simp add: spy_def f)
  have step: "retry_loop apiKeyPool (spy apiCallFn) maxRetries retryCount
          \<lparr>currentApiKeyIndex = c, world = (log, w)\<rparr> =
        retry_loop apiKeyPool (spy apiCallFn) maxRetries (Suc retryCount)
          \<lparr>currentApiKeyIndex = ?c', world = (log @ [(?m, Inl err)], w')\<rparr>"
    using Suc.prems sp lim
    by (subst retry_loop_again [where err = err and w = "(log @ [(?m, Inl err)], w')"]) simp_all
  from Suc.prems have "Suc retryCount + Suc d = maxRetries" by simp
  from Suc.IH [OF this, of ?c' "log @ [(?m, Inl err)]" w']
  obtain calls res w'' where
    run: "retry_loop apiKeyPool (spy apiCallFn) maxRetries (Suc retryCount)
          \<lparr>currentApiKeyIndex = ?c', world = (log @ [(?m, Inl err)], w')\<rparr> =
        (res, \<lparr>currentApiKeyIndex = (next_index apiKeyPool ^^ d) ?c',
               world = ((log @ [(?m, Inl err)]) @ calls, w'')\<rparr>)"
    and ms: "map fst calls = map (\<lambda>k. getGenerativeModel apiKeyPool ((next_index apiKeyPool ^^ k) ?c')) [0..<Suc d]"
    and res: "res = snd (last calls)" "\<exists>err. res = Inl err \<and> is429Error err"
    by blast
  have ne: "calls \<noteq> []" using ms by auto
  have u: "[0..<Suc (Suc d)] = 0 # map Suc [0..<Suc d]"
    by (simp add: upt_conv_Cons map_Suc_upt del: upt_Suc)
  have ms': "map fst ((?m, Inl err) # calls) =
      map (\<lambda>k. getGenerativeModel apiKeyPool ((next_index apiKeyPool ^^ k) c)) [0..<Suc (Suc d)]"
    unfolding u using ms by (simp add: comp_def funpow_swap1 del: upt_Suc)
  have "retry_loop apiKeyPool (spy apiCallFn) maxRetries retryCount
          \<lparr>currentApiKeyIndex = c, world = (log, w)\<rparr> =
        (res, \<lparr>currentApiKeyIndex = (next_index apiKeyPool ^^ Suc d) c,
               world = (log @ ((?m, Inl err) # calls), w'')\<rparr>)"
    using step run by (simp add: funpow_swap1)
  moreover have "res = snd (last ((?m, Inl err) # calls))" using res ne by simp
  ultimately show ?case using ms' res(2) by blast
qed

lemma retry_loop_simulation:
  assumes step: "\<And>m w v r w' r' v'. R w v \<Longrightarrow> f m w = (r, w') \<Longrightarrow> g m v = (r', v') \<Longrightarrow> r = r' \<and> R w' v'"
  shows "R (world s) (world t) \<Longrightarrow> currentApiKeyIndex s = currentApiKeyIndex t \<Longrightarrow>
     retry_loop pool f n k s = (r, s') \<Longrightarrow> retry_loop pool g n k t = (r', t') \<Longrightarrow>
     r = r' \<and> R (world s') (world t') \<and> currentApiKeyIndex s' = currentApiKeyIndex t'"
proof (induction d \<equiv> "n - k" arbitrary: k s t)
  case 0
  then have "\<not> k < n" by simp
  then show ?case using "0.prems" by (simp add: retry_loop_spent)
next
  case (Suc d)
  then have kn: "k < n" by simp
  let ?m = "getGenerativeModel pool (currentApiKeyIndex s)"
  have mt: "getGenerativeModel pool (currentApiKeyIndex t) = ?m" using Suc.prems(2) by simp
  obtain x w where fw: "f ?m (world s) = (x, w)" by fastforce
  obtain y v where gv: "g ?m (world t) = (y, v)" by fastforce
  have xy: "y = x" and Rwv: "R w v" using step [OF Suc.prems(1) fw gv] by simp_all
  have gv': "g (getGenerativeModel pool (currentApiKeyIndex t)) (world t) = (x, v)"
    using gv xy mt by simp
  show ?case
  proof (cases x)
    case (Inr a)
    have "retry_loop pool f n k s = (Inr a, s\<lparr>world := w\<rparr>)"
      using retry_loop_success [where apiCallFn = f and apiKeyPool = pool and s = s, OF kn fw [unfolded Inr]] .
    moreover have "retry_loop pool g n k t = (Inr a, t\<lparr>world := v\<rparr>)"
      using retry_loop_success [where apiCallFn = g and apiKeyPool = pool and s = t, OF kn gv' [unfolded Inr]] .
    ultimately show ?thesis using Suc.prems Rwv by auto
  next
    case (Inl err)
    show ?thesis
    proof (cases "is429Error err \<and> Suc k < n")
      case True
      have d: "d = n - Suc k" using Suc.hyps(2) by simp
      let ?s1 = "\<lparr>currentApiKeyIndex = next_index pool (currentApiKeyIndex s), world = w\<rparr>"
      let ?t1 = "\<lparr>currentApiKeyIndex = next_index pool (currentApiKeyIndex t), world = v\<rparr>"
      have a: "retry_loop pool f n k s = retry_loop pool f n (Suc k) ?s1"
        using retry_loop_again [where apiCallFn = f and apiKeyPool = pool and s = s and retryCount = k
            and maxRetries = n and err = err and w = w] True fw Inl by simp
      have b: "retry_loop pool g n k t = retry_loop pool g n (Suc k) ?t1"
        using retry_loop_again [where apiCallFn = g and apiKeyPool = pool and s = t and retryCount = k
            and maxRetries = n and err = err and w = v] True gv' Inl by simp
      show ?thesis
        using Suc.hyps(1) [OF d, of ?s1 ?t1] Rwv Suc.prems a b by simp
    next
      case False
      then consider "\<not> is429Error err" | "n = Suc k" using kn by linarith
      then have "retry_loop pool f n k s = (Inl err, s\<lparr>world := w\<rparr>) \<and>
                 retry_loop pool g n k t = (Inl err, t\<lparr>world := v\<rparr>)"
      proof cases
        case 1
        then show ?thesis
          using retry_loop_fatal [where apiCallFn = f and apiKeyPool = pool and s = s, OF kn fw [unfolded Inl]]
            retry_loop_fatal [where apiCallFn = g and apiKeyPool = pool and s = t, OF kn gv' [unfolded Inl]]
          by simp
      next
        case 2
        then show ?thesis
          using retry_loop_last [where apiCallFn = f and apiKeyPool = pool and s = s, OF 2 fw [unfolded Inl]]
            retry_loop_last [where apiCallFn = g and apiKeyPool = pool and s = t, OF 2 gv' [unfolded Inl]]
          by simp
      qed
      then show ?thesis using Suc.prems Rwv by auto
    qed
  qed
qed

lemma spy_transparent:
  assumes "executeWithRetry pool (spy f) n \<lparr>currentApiKeyIndex = c, world = (log, w)\<rparr> = (r, s')"
  shows "executeWithRetry pool f n \<lparr>currentApiKeyIndex = c, world = w\<rparr> =
     (r, \<lparr>currentApiKeyIndex = currentApiKeyIndex s', world = snd (world s')\<rparr>)"
proof -
  obtain r' t' where t: "retry_loop pool f n 0 \<lparr>currentApiKeyIndex = c, world = w\<rparr> = (r', t')"
    by fastforce
  have st: "\<And>m lw v r lw' r' v'. snd lw = v \<Longrightarrow> spy f m lw = (r, lw') \<Longrightarrow> f m v = (r', v') \<Longrightarrow>
      r = r' \<and> snd lw' = v'"
    by (auto simp: spy_def split: prod.splits)
  have "r = r' \<and> snd (world s') = world t' \<and> currentApiKeyIndex s' = currentApiKeyIndex t'"
    using retry_loop_simulation [where R = "\<lambda>lw v. snd lw = v" and f = "spy f" and g = f
        and s = "\<lparr>currentApiKeyIndex = c, world = (log, w)\<rparr>"
        and t = "\<lparr>currentApiKeyIndex = c, world = w\<rparr>", OF st _ _ _ t]
      assms [unfolded executeWithRetry_def]
    by simp
  then show ?thesis unfolding executeWithRetry_def t by (cases t') simp
qed

subsection \<open>The rotator\<close>

text \<open>
  C5. For a pool of size \<open>p \<ge> 1\<close> and a cursor \<open>i < p\<close>, \<open>k\<close> calls of
  \<open>switchToNextApiKey\<close> leave the cursor at \<open>(i + k) mod p\<close>, and the \<open>j\<close>-th call
  returns the credential at \<open>(i + j) mod p\<close>, the cursor it has just set.
\<close>

theorem switchToNextApiKey_k_times:
  assumes "1 \<le> length apiKeyPool" and "i < length apiKeyPool"
  shows "switch_times apiKeyPool k (Idx i) =
     (map (\<lambda>j. Some (apiKeyPool ! ((i + j) mod length apiKeyPool))) [1..<Suc k],
      Idx ((i + k) mod length apiKeyPool))"
  using assms by (rule switch_times_Idx)

text \<open>An instance: a pool of three, started at 1, advanced five times.\<close>

theorem switchToNextApiKey_k_times_witness:
  "1 \<le> length [''k0'', ''k1'', ''k2''] \<and> (1::nat) < length [''k0'', ''k1'', ''k2''] \<and>
   switch_times [''k0'', ''k1'', ''k2''] 5 (Idx 1) =
     ([Some ''k2'', Some ''k0'', Some ''k1'', Some ''k2'', Some ''k0''], Idx 0)"
  using switchToNextApiKey_k_times [of "[''k0'', ''k1'', ''k2'']" 1 5]
  by (simp add: upt_conv_Cons del: upt_Suc)

subsection \<open>Classification and propagation\<close>

text \<open>
  C4. An error is classified as rate-limited exactly when its message contains one of
  \<open>429\<close>, \<open>quota\<close>, \<open>rate limit\<close>, \<open>too many requests\<close> as a substring, compared
  character by character; an absent or empty message is never so classified. An error
  that is not rate-limited leaves the loop at once: the executor returns that very
  error and the cursor keeps its value.
\<close>

theorem rate_limit_classification:
  "(is429Error err \<longleftrightarrow>
      (\<exists>msg p pre suf. message err = Some msg \<and>
         p \<in> {''429'', ''quota'', ''rate limit'', ''too many requests''} \<and> msg = pre @ p @ suf)) \<and>
   \<not> is429Error (JsError n None) \<and> \<not> is429Error (JsError n (Some [])) \<and>
   (retryCount < maxRetries \<and>
    apiCallFn (getGenerativeModel apiKeyPool (currentApiKeyIndex s)) (world s) = (Inl err, w) \<and>
    \<not> is429Error err \<longrightarrow>
      retry_loop apiKeyPool apiCallFn maxRetries retryCount s = (Inl err, s\<lparr>world := w\<rparr>) \<and>
      currentApiKeyIndex (snd (retry_loop apiKeyPool apiCallFn maxRetries retryCount s)) =
        currentApiKeyIndex s) \<and>
   (1 \<le> maxRetries \<and>
    apiCallFn (getGenerativeModel apiKeyPool (currentApiKeyIndex s)) (world s) = (Inl err, w) \<and>
    \<not> is429Error err \<longrightarrow>
      executeWithRetry apiKeyPool apiCallFn maxRetries s = (Inl err, s\<lparr>world := w\<rparr>))"
proof -
  have a: "\<not> is429Error (JsError n None)" "\<not> is429Error (JsError n (Some []))"
    by (simp_all add: is429Error_def)
  have b: "retry_loop apiKeyPool apiCallFn maxRetries retryCount s = (Inl err, s\<lparr>world := w\<rparr>)"
    if "retryCount < maxRetries"
      "apiCallFn (getGenerativeModel apiKeyPool (currentApiKeyIndex s)) (world s) = (Inl err, w)"
      "\<not> is429Error err"
    using that by (rule retry_loop_fatal)
  have c: "executeWithRetry apiKeyPool apiCallFn maxRetries s = (Inl err, s\<lparr>world := w\<rparr>)"
    if "1 \<le> maxRetries"
      "apiCallFn (getGenerativeModel apiKeyPool (currentApiKeyIndex s)) (world s) = (Inl err, w)"
      "\<not> is429Error err"
    unfolding executeWithRetry_def using that by (intro retry_loop_fatal) simp_all
  show ?thesis using is429Error_iff [of err] a b c by simp
qed

text \<open>An instance: two classifications, and a fatal error on the first attempt.\<close>

theorem rate_limit_classification_witness:
  "is429Error (JsError ''Error'' (Some ''[429 Too Many Requests] quota exceeded'')) \<and>
   \<not> is429Error (JsError ''Error'' (Some ''Rate Limit reached: HTTP 4-2-9'')) \<and>
   (0::nat) < 3 \<and>
   (\<lambda>m w. (Inl (JsError ''Error'' (Some ''API key not valid'')), Suc w))
      (getGenerativeModel [''k0'', ''k1'', ''k2''] (Idx 1)) (7::nat) =
     (Inl (JsError ''Error'' (Some ''API key not valid'')) :: js_error + unit, 8) \<and>
   retry_loop [''k0'', ''k1'', ''k2'']
      (\<lambda>m w. (Inl (JsError ''Error'' (Some ''API key not valid'')) :: js_error + unit, Suc w)) 3 0
      \<lparr>currentApiKeyIndex = Idx 1, world = 7\<rparr> =
     (Inl (JsError ''Error'' (Some ''API key not valid'')), \<lparr>currentApiKeyIndex = Idx 1, world = 8\<rparr>)"
proof -
  have l: "is429Error (JsError ''Error'' (Some ''[429 Too Many Requests] quota exceeded''))"
    by (simp add: is429Error_def startsWith_def)
  have n: "\<not> is429Error (JsError ''Error'' (Some ''Rate Limit reached: HTTP 4-2-9''))"
    by (simp add: is429Error_def startsWith_def)
  have f: "\<not> is429Error (JsError ''Error'' (Some ''API key not valid''))"
    by (simp add: is429Error_def startsWith_def)
  show ?thesis
    using l n f rate_limit_classification [of "JsError ''Error'' (Some ''API key not valid'')" "''x''" 0 3
        "\<lambda>m w. (Inl (JsError ''Error'' (Some ''API key not valid'')) :: js_error + unit, Suc w)"
        "[''k0'', ''k1'', ''k2'']" "\<lparr>currentApiKeyIndex = Idx 1, world = 7\<rparr>" 8]
    by simp
qed

subsection \<open>The number of attempts\<close>

text \<open>
  C1. With an attempt budget \<open>maxRetries \<ge> 1\<close>: a call function that throws a
  rate-limited error on every call is invoked exactly \<open>maxRetries\<close> times, the
  \<open>k\<close>-th call with the model of the cursor advanced \<open>k\<close> times, and the executor
  throws what the last call threw; a call function whose first call throws an error that
  is not rate-limited is invoked once and the executor throws that error. Writing the
  calls down changes nothing: the run with the observed function returns what the run
  with the function itself returns.
\<close>

theorem executeWithRetry_attempts:
  "(1 \<le> maxRetries \<and> (\<forall>m w. \<exists>err w'. apiCallFn m w = (Inl err, w') \<and> is429Error err) \<longrightarrow>
      (\<exists>calls res w'.
         executeWithRetry apiKeyPool (spy apiCallFn) maxRetries
             \<lparr>currentApiKeyIndex = c, world = ([], w)\<rparr> =
           (res, \<lparr>currentApiKeyIndex = (next_index apiKeyPool ^^ (maxRetries - 1)) c,
                  world = (calls, w')\<rparr>) \<and>
         length calls = maxRetries \<and>
         map fst calls =
           map (\<lambda>k. getGenerativeModel apiKeyPool ((next_index apiKeyPool ^^ k) c)) [0..<maxRetries] \<and>
         res = snd (last calls) \<and> (\<exists>err. res = Inl err \<and> is429Error err))) \<and>
   (1 \<le> maxRetries \<and> apiCallFn (getGenerativeModel apiKeyPool c) w = (Inl err, w') \<and>
    \<not> is429Error err \<longrightarrow>
      executeWithRetry apiKeyPool (spy apiCallFn) maxRetries
          \<lparr>currentApiKeyIndex = c, world = ([], w)\<rparr> =
        (Inl err, \<lparr>currentApiKeyIndex = c,
                   world = ([(getGenerativeModel apiKeyPool c, Inl err)], w')\<rparr>)) \<and>
   (executeWithRetry apiKeyPool (spy apiCallFn) maxRetries
        \<lparr>currentApiKeyIndex = c, world = (log, w)\<rparr> = (r, s') \<longrightarrow>
      executeWithRetry apiKeyPool apiCallFn maxRetries \<lparr>currentApiKeyIndex = c, world = w\<rparr> =
        (r, \<lparr>currentApiKeyIndex = currentApiKeyIndex s', world = snd (world s')\<rparr>))"
proof (intro conjI impI)
  assume h: "1 \<le> maxRetries \<and> (\<forall>m w. \<exists>err w'. apiCallFn m w = (Inl err, w') \<and> is429Error err)"
  then obtain d where d: "maxRetries = Suc d" by (cases maxRetries) auto
  from h have al: "\<forall>m w. \<exists>err w'. apiCallFn m w = (Inl err, w') \<and> is429Error err" by blast
  have "0 + Suc d = maxRetries" using d by simp
  from retry_loop_always_limited [OF al this, of apiKeyPool c "[]" w]
  obtain calls res w' where
    run: "retry_loop apiKeyPool (spy apiCallFn) maxRetries 0 \<lparr>currentApiKeyIndex = c, world = ([], w)\<rparr> =
        (res, \<lparr>currentApiKeyIndex = (next_index apiKeyPool ^^ d) c, world = ([] @ calls, w')\<rparr>)"
    and ms: "map fst calls =
        map (\<lambda>k. getGenerativeModel apiKeyPool ((next_index apiKeyPool ^^ k) c)) [0..<Suc d]"
    and res: "res = snd (last calls)" "\<exists>err. res = Inl err \<and> is429Error err"
    by blast
  have "length (map fst calls) = Suc d" unfolding ms by simp
  then have len: "length calls = maxRetries" using d by simp
  show "\<exists>calls res w'.
         executeWithRetry apiKeyPool (spy apiCallFn) maxRetries
             \<lparr>currentApiKeyIndex = c, world = ([], w)\<rparr> =
           (res, \<lparr>currentApiKeyIndex = (next_index apiKeyPool ^^ (maxRetries - 1)) c,
                  world = (calls, w')\<rparr>) \<and>
         length calls = maxRetries \<and>
         map fst calls =
           map (\<lambda>k. getGenerativeModel apiKeyPool ((next_index apiKeyPool ^^ k) c)) [0..<maxRetries] \<and>
         res = snd (last calls) \<and> (\<exists>err. res = Inl err \<and> is429Error err)"
    unfolding executeWithRetry_def using run ms res len d by auto
next
  assume h: "1 \<le> maxRetries \<and> apiCallFn (getGenerativeModel apiKeyPool c) w = (Inl err, w') \<and>
    \<not> is429Error err"
  let ?m = "getGenerativeModel apiKeyPool c"
  have sp: "spy apiCallFn ?m ([], w) = (Inl err, ([(?m, Inl err)], w'))"
    using h by (simp add: spy_def)
  show "executeWithRetry apiKeyPool (spy apiCallFn) maxRetries
          \<lparr>currentApiKeyIndex = c, world = ([], w)\<rparr> =
        (Inl err, \<lparr>currentApiKeyIndex = c, world = ([(?m, Inl err)], w')\<rparr>)"
    unfolding executeWithRetry_def
    using h sp by (subst retry_loop_fatal [where err = err and w = "([(?m, Inl err)], w')"]) simp_all
next
  assume "executeWithRetry apiKeyPool (spy apiCallFn) maxRetries
        \<lparr>currentApiKeyIndex = c, world = (log, w)\<rparr> = (r, s')"
  then show "executeWithRetry apiKeyPool apiCallFn maxRetries \<lparr>currentApiKeyIndex = c, world = w\<rparr> =
        (r, \<lparr>currentApiKeyIndex = currentApiKeyIndex s', world = snd (world s')\<rparr>)"
    by (rule spy_transparent)
qed

text \<open>An instance: three credentials, a backend that always answers 429, and one that rejects the key.\<close>

theorem executeWithRetry_attempts_witness:
  "(1::nat) \<le> 3 \<and>
   (\<forall>m w. \<exists>err w'.
      (\<lambda>m w. (Inl (JsError ''Error'' (Some ''429 Too Many Requests'')) :: js_error + unit, w :: unit)) m w
        = (Inl err, w') \<and> is429Error err) \<and>
   (\<exists>calls res.
      executeWithRetry [''k0'', ''k1'', ''k2'']
          (spy (\<lambda>m w. (Inl (JsError ''Error'' (Some ''429 Too Many Requests'')) :: js_error + unit, w :: unit)))
          3 \<lparr>currentApiKeyIndex = Idx 0, world = ([], ())\<rparr> =
        (res, \<lparr>currentApiKeyIndex = Idx 2, world = (calls, ())\<rparr>) \<and>
      length calls = 3 \<and>
      map fst calls =
        [GenerativeModel (Some ''k0'') model_name, GenerativeModel (Some ''k1'') model_name,
         GenerativeModel (Some ''k2'') model_name] \<and>
      res = snd (last calls)) \<and>
   \<not> is429Error (JsError ''Error'' (Some ''API key not valid'')) \<and>
   executeWithRetry [''k0'', ''k1'', ''k2'']
       (spy (\<lambda>m w. (Inl (JsError ''Error'' (Some ''API key not valid'')) :: js_error + unit, w :: unit)))
       3 \<lparr>currentApiKeyIndex = Idx 0, world = ([], ())\<rparr> =
     (Inl (JsError ''Error'' (Some ''API key not valid'')),
      \<lparr>currentApiKeyIndex = Idx 0,
       world = ([(GenerativeModel (Some ''k0'') model_name,
                  Inl (JsError ''Error'' (Some ''API key not valid'')))], ())\<rparr>)"
proof -
  let ?f1 = "\<lambda>m w. (Inl (JsError ''Error'' (Some ''429 Too Many Requests'')) :: js_error + unit, w :: unit)"
  let ?f2 = "\<lambda>m w. (Inl (JsError ''Error'' (Some ''API key not valid'')) :: js_error + unit, w :: unit)"
  let ?pool = "[''k0'', ''k1'', ''k2'']"
  have l: "is429Error (JsError ''Error'' (Some ''429 Too Many Requests''))"
    by (simp add: is429Error_def startsWith_def)
  have n: "\<not> is429Error (JsError ''Error'' (Some ''API key not valid''))"
    by (simp add: is429Error_def startsWith_def)
  have a: "\<forall>m w. \<exists>err w'. ?f1 m w = (Inl err, w') \<and> is429Error err"
    using l by simp
  have p1: "\<exists>calls res w'.
         executeWithRetry ?pool (spy ?f1) 3 \<lparr>currentApiKeyIndex = Idx 0, world = ([], ())\<rparr> =
           (res, \<lparr>currentApiKeyIndex = (next_index ?pool ^^ (3 - 1)) (Idx 0), world = (calls, w')\<rparr>) \<and>
         length calls = 3 \<and>
         map fst calls = map (\<lambda>k. getGenerativeModel ?pool ((next_index ?pool ^^ k) (Idx 0))) [0..<3] \<and>
         res = snd (last calls) \<and> (\<exists>err. res = Inl err \<and> is429Error err)"
    using executeWithRetry_attempts [where maxRetries = 3 and apiCallFn = ?f1 and apiKeyPool = ?pool
        and c = "Idx 0" and w = "()"] a
    by simp
  have p2: "executeWithRetry ?pool (spy ?f2) 3 \<lparr>currentApiKeyIndex = Idx 0, world = ([], ())\<rparr> =
        (Inl (JsError ''Error'' (Some ''API key not valid'')),
         \<lparr>currentApiKeyIndex = Idx 0,
          world = ([(getGenerativeModel ?pool (Idx 0), Inl (JsError ''Error'' (Some ''API key not valid'')))], ())\<rparr>)"
    using executeWithRetry_attempts [where maxRetries = 3 and apiCallFn = ?f2 and apiKeyPool = ?pool
        and c = "Idx 0" and w = "()" and w' = "()" and err = "JsError ''Error'' (Some ''API key not valid'')"] n
    by simp
  have e: "(next_index ?pool ^^ (3 - 1)) (Idx 0) = Idx 2"
    by code_simp
  have m: "map (\<lambda>k. getGenerativeModel ?pool ((next_index ?pool ^^ k) (Idx 0))) [0..<3] =
        [GenerativeModel (Some ''k0'') model_name, GenerativeModel (Some ''k1'') model_name,
         GenerativeModel (Some ''k2'') model_name]"
    by code_simp
  have g: "getGenerativeModel ?pool (Idx 0) = GenerativeModel (Some ''k0'') model_name"
    by (simp add: getGenerativeModel_def getCurrentApiKey_def)
  have q1: "\<exists>calls res.
      executeWithRetry ?pool (spy ?f1) 3 \<lparr>currentApiKeyIndex = Idx 0, world = ([], ())\<rparr> =
        (res, \<lparr>currentApiKeyIndex = Idx 2, world = (calls, ())\<rparr>) \<and>
      length calls = 3 \<and>
      map fst calls =
        [GenerativeModel (Some ''k0'') model_name, GenerativeModel (Some ''k1'') model_name,
         GenerativeModel (Some ''k2'') model_name] \<and>
      res = snd (last calls)"
    using p1 unfolding e m by (elim exE conjE, intro exI conjI) simp_all
  show ?thesis using a n q1 p2 [unfolded g] by simp
qed

section \<open>Properties of the content normalizer and the history translator\<close>

subsection \<open>Auxiliary facts\<close>

lemma slice_all_but_last: "slice xs 0 (- 1) = butlast xs"
proof -
  have "nat (max (int (length xs) + (- 1)) 0) = length xs - 1" by linarith
  then show ?thesis
    by (simp add: slice_def relative_index_def Let_def butlast_conv_take)
qed

lemma map_items_Inr_iff:
  "map_items f xs = Inr ys \<longleftrightarrow>
     length ys = length xs \<and> (\<forall>i<length xs. f (xs ! i) = Inr (ys ! i))"
proof (induction xs arbitrary: ys)
  case Nil
  then show ?case by auto
next
  case (Cons x xs)
  show ?case
  proof (cases ys)
    case Nil
    then show ?thesis by (auto split: sum.splits)
  next
    case (Cons y ys')
    have "map_items f (x # xs) = Inr (y # ys') \<longleftrightarrow> f x = Inr y \<and> map_items f xs = Inr ys'"
      by (auto split: sum.splits)
    also have "\<dots> \<longleftrightarrow> f x = Inr y \<and> length ys' = length xs \<and> (\<forall>i<length xs. f (xs ! i) = Inr (ys' ! i))"
      using Cons.IH [of ys'] by simp
    also have "\<dots> \<longleftrightarrow> length (y # ys') = length (x # xs) \<and>
        (\<forall>i<length (x # xs). f ((x # xs) ! i) = Inr ((y # ys') ! i))"
      by (auto simp: nth_Cons split: nat.splits)
    finally show ?thesis using Cons by simp
  qed
qed

lemma map_items_total:
  "(\<forall>x\<in>set xs. \<exists>y. f x = Inr y) \<Longrightarrow> \<exists>ys. map_items f xs = Inr ys"
  by (induction xs) (auto split: sum.splits)

lemma history_loop_map_items:
  "history_loop h xs acc =
     (case map_items (translate_message h) xs of Inl e \<Rightarrow> Inl e | Inr ts \<Rightarrow> Inr (acc @ ts))"
  by (induction xs arbitrary: acc) (auto split: sum.splits)

lemma translate_history_map_items:
  "translate_history h ms = map_items (translate_message h) (butlast ms)"
  by (simp add: translate_history_def slice_all_but_last history_loop_map_items split: sum.splits)

lemma translate_history_Inr_iff:
  "translate_history h ms = Inr history \<longleftrightarrow>
     length history = length ms - 1 \<and>
     (\<forall>i<length ms - 1. translate_message h (ms ! i) = Inr (history ! i))"
  by (simp add: translate_history_map_items map_items_Inr_iff nth_butlast)

lemma own_prop_not_nullish: "own_prop v k = JStr s \<Longrightarrow> \<not> nullish v"
  by (cases v) (auto simp: nullish_def)

lemma translate_system_message:
  assumes "own_prop m ''role'' = JStr ''system''"
  shows "translate_message h m =
     (case ToString (own_prop m ''content'') of
        Inl e \<Rightarrow> Inl e
      | Inr s \<Rightarrow> Inr (Turn ''user'' [TextPart (JStr (''[SYSTEM]: '' @ s))]))"
  using assms own_prop_not_nullish [OF assms]
  by (simp add: translate_message_def Let_def split: sum.splits)

lemma example_front: "map_items (translate_message example_host) (butlast example_messages) = Inr example_history"
  by code_simp

lemma startsWith_append [simp]: "startsWith (p @ s) p"
  by (simp add: startsWith_def)

lemma strip_prefix_append [simp]: "strip_prefix p (p @ s) = Some s"
  by (simp add: strip_prefix_def)

lemma takeWhile_until: "c \<notin> set xs \<Longrightarrow> takeWhile (\<lambda>x. x \<noteq> c) (xs @ c # ys) = xs"
  by (induction xs) auto

lemma dropWhile_until: "c \<notin> set xs \<Longrightarrow> dropWhile (\<lambda>x. x \<noteq> c) (xs @ c # ys) = c # ys"
  by (induction xs) auto

lemma match_data_uri_parts:
  assumes "CHR '';'' \<notin> set mimeType"
  shows "match_data_uri (''data:'' @ mimeType @ '';base64,'' @ base64Data) =
     (if mimeType \<noteq> [] \<and> base64Data \<noteq> [] \<and> line_terminator_free base64Data
      then Some (mimeType, base64Data) else None)"
  using assms
  by (simp add: match_data_uri_def strip_prefix_def startsWith_def Let_def
        takeWhile_until dropWhile_until)

lemma match_data_uri_iff:
  "match_data_uri (''data:'' @ mimeType @ '';base64,'' @ base64Data) = Some (mimeType, base64Data) \<longleftrightarrow>
     mimeType \<noteq> [] \<and> CHR '';'' \<notin> set mimeType \<and> base64Data \<noteq> [] \<and>
     line_terminator_free base64Data"
proof (cases "CHR '';'' \<in> set mimeType")
  case False
  show ?thesis
    unfolding match_data_uri_parts [OF False] using False by auto
next
  case True
  have "match_data_uri (''data:'' @ mimeType @ '';base64,'' @ base64Data) \<noteq> Some (mimeType, base64Data)"
  proof
    assume m: "match_data_uri (''data:'' @ mimeType @ '';base64,'' @ base64Data) = Some (mimeType, base64Data)"
    then have "takeWhile (\<lambda>c. c \<noteq> CHR '';'') (mimeType @ '';base64,'' @ base64Data) = mimeType"
      by (auto simp: match_data_uri_def strip_prefix_def startsWith_def Let_def
            split: if_splits option.splits)
    then have "\<forall>c\<in>set mimeType. c \<noteq> CHR '';''"
      by (metis set_takeWhileD)
    then show False using True by blast
  qed
  then show ?thesis using True by simp
qed

lemma str_includes_head: "str_includes s (c # p) \<Longrightarrow> c \<in> set s"
proof (induction s)
  case Nil
  then show ?case by simp
next
  case (Cons a s)
  then show ?case by (auto simp: startsWith_def)
qed

lemma b64_digit_in: "b64_digit n \<in> set b64_alphabet"
proof -
  have "length b64_alphabet = 64" by (simp add: b64_alphabet_def)
  then have "n mod 64 < length b64_alphabet" by simp
  then show ?thesis unfolding b64_digit_def by (rule nth_mem)
qed

lemma set_base64: "set (base64 bs) \<subseteq> insert (CHR ''='') (set b64_alphabet)"
  by (induction bs rule: base64.induct) (auto simp: Let_def b64_digit_in)

lemma base64_empty_iff: "base64 bs = [] \<longleftrightarrow> bs = []"
  by (cases bs rule: base64.cases) (simp_all add: Let_def)

lemma b64_chars:
  "CHR 0x0A \<notin> insert (CHR ''='') (set b64_alphabet)"
  "CHR 0x0D \<notin> insert (CHR ''='') (set b64_alphabet)"
  "CHR 0xE2 \<notin> insert (CHR ''='') (set b64_alphabet)"
  by (simp_all add: b64_alphabet_def)

lemma base64_line_terminator_free: "line_terminator_free (base64 bs)"
  unfolding line_terminator_free_def
  using set_base64 [of bs] b64_chars str_includes_head [of "base64 bs" "CHR 0xE2"]
  by blast

lemma image_item_props:
  "own_prop (image_item url) ''type'' = JStr ''image_url''"
  "own_prop (own_prop (image_item url) ''image_url'') ''url'' = JStr url"
  by (simp_all add: image_item_def)

lemma process_item_data_uri:
  assumes ty: "own_prop item ''type'' = JStr ''image_url''"
    and url: "own_prop (own_prop item ''image_url'') ''url'' = JStr u"
    and st: "startsWith u ''data:''"
  shows "process_item h item =
     (case match_data_uri u of
        Some (mimeType, base64Data) \<Rightarrow> Inr (InlineData (JStr base64Data) (JStr mimeType))
      | None \<Rightarrow> Inr unsupported)"
proof -
  have a: "get_prop item ''type'' = Inr (JStr ''image_url'')"
    using ty own_prop_not_nullish [OF ty] by (simp add: get_prop_def)
  have b: "get_prop (own_prop item ''image_url'') ''url'' = Inr (JStr u)"
    using url own_prop_not_nullish [OF url] by (simp add: get_prop_def)
  show ?thesis
    unfolding process_item_def a b using st by simp
qed

lemma starts_data: "startsWith (''data:'' @ s) ''data:''"
  by (rule startsWith_append)

lemma normalize_data_uri:
  assumes ty: "own_prop item ''type'' = JStr ''image_url''"
    and url: "own_prop (own_prop item ''image_url'') ''url'' =
                JStr (''data:'' @ mimeType @ '';base64,'' @ base64Data)"
    and ok: "mimeType \<noteq> []" "CHR '';'' \<notin> set mimeType" "base64Data \<noteq> []"
      "line_terminator_free base64Data"
  shows "processMessageContent h (JArr [item]) = Inr [InlineData (JStr base64Data) (JStr mimeType)]"
proof -
  have m: "match_data_uri (''data:'' @ mimeType @ '';base64,'' @ base64Data) = Some (mimeType, base64Data)"
    using ok by (simp only: match_data_uri_iff simp_thms)
  have "process_item h item = Inr (InlineData (JStr base64Data) (JStr mimeType))"
    unfolding process_item_data_uri [OF ty url starts_data] m by simp
  then show ?thesis by (simp add: processMessageContent_def)
qed


subsection \<open>The history\<close>

text \<open>
  C7. The history is the message-by-message translation of all messages but the last,
  in their order: it has \<open>length ms - 1\<close> turns, the \<open>i\<close>-th being the translation of
  the \<open>i\<close>-th message, it exists whenever each of those messages translates, and it
  does not depend on the final message.
\<close>

theorem history_excludes_final_message:
  "(translate_history h ms = Inr history \<longleftrightarrow>
      length history = length ms - 1 \<and>
      (\<forall>i<length ms - 1. translate_message h (ms ! i) = Inr (history ! i))) \<and>
   ((\<forall>m\<in>set (butlast ms). \<exists>t. translate_message h m = Inr t) \<longrightarrow>
      (\<exists>turns. translate_history h ms = Inr turns \<and> length turns = length ms - 1)) \<and>
   translate_history h (front @ [final]) = map_items (translate_message h) front"
proof -
  have a: "(\<forall>m\<in>set (butlast ms). \<exists>t. translate_message h m = Inr t) \<longrightarrow>
      (\<exists>turns. translate_history h ms = Inr turns \<and> length turns = length ms - 1)"
  proof
    assume "\<forall>m\<in>set (butlast ms). \<exists>t. translate_message h m = Inr t"
    then obtain turns where t: "map_items (translate_message h) (butlast ms) = Inr turns"
      using map_items_total by blast
    then have "length turns = length ms - 1"
      by (simp add: map_items_Inr_iff)
    then show "\<exists>turns. translate_history h ms = Inr turns \<and> length turns = length ms - 1"
      using t by (simp add: translate_history_map_items)
  qed
  show ?thesis
    using translate_history_Inr_iff [of h ms history] a
    by (simp add: translate_history_map_items)
qed

text \<open>An instance.\<close>

theorem history_excludes_final_message_witness:
  "1 \<le> length example_messages \<and>
   (\<exists>turns. translate_history example_host example_messages = Inr turns \<and>
      length turns = length example_messages - 1) \<and>
   translate_history example_host (butlast example_messages @ [JNull]) = Inr example_history \<and>
   translate_history example_host example_messages = Inr example_history \<and>
   length example_history = 3 \<and> length example_messages = 4"
proof -
  have all: "\<forall>m\<in>set (butlast example_messages). \<exists>t. translate_message example_host m = Inr t"
  proof
    fix m assume "m \<in> set (butlast example_messages)"
    then obtain i where i: "i < length (butlast example_messages)" "m = butlast example_messages ! i"
      by (metis in_set_conv_nth)
    have "translate_message example_host (butlast example_messages ! i) = Inr (example_history ! i)"
      using example_front i(1) by (simp add: map_items_Inr_iff)
    then show "\<exists>t. translate_message example_host m = Inr t" using i(2) by blast
  qed
  have n: "length example_history = 3" "length example_messages = 4"
    by (simp_all add: example_history_def example_messages_def)
  have a: "\<exists>turns. translate_history example_host example_messages = Inr turns \<and>
      length turns = length example_messages - 1"
    using history_excludes_final_message [of example_host example_messages example_history
        "butlast example_messages" JNull] all by blast
  have b: "translate_history example_host (butlast example_messages @ [JNull]) = Inr example_history"
    using history_excludes_final_message [of example_host example_messages example_history
        "butlast example_messages" JNull] example_front by simp
  have c: "translate_history example_host example_messages = Inr example_history"
    by (simp add: translate_history_map_items example_front)
  show ?thesis using a b c n by simp
qed

subsection \<open>System messages\<close>

text \<open>
  C8. A message whose role is \<open>system\<close> becomes a turn of role \<open>user\<close> with the single
  text part \<open>[SYSTEM]: \<close> followed by the default string form of its content, whatever
  the content is; when that conversion throws, the translation throws the same error.
  In a history that was produced, the turn of every system message has this form.
\<close>

theorem system_message_turn:
  "own_prop m ''role'' = JStr ''system'' \<longrightarrow>
     translate_message h m =
       (case ToString (own_prop m ''content'') of
          Inl e \<Rightarrow> Inl e
        | Inr s \<Rightarrow> Inr (Turn ''user'' [TextPart (JStr (''[SYSTEM]: '' @ s))])) \<and>
     (\<forall>history i. translate_history h ms = Inr history \<and> i < length ms - 1 \<and>
          ms ! i = m \<longrightarrow>
        (\<exists>s. ToString (own_prop m ''content'') = Inr s \<and>
             history ! i = Turn ''user'' [TextPart (JStr (''[SYSTEM]: '' @ s))]))"
proof (intro impI conjI allI)
  assume r: "own_prop m ''role'' = JStr ''system''"
  show "translate_message h m =
       (case ToString (own_prop m ''content'') of
          Inl e \<Rightarrow> Inl e
        | Inr s \<Rightarrow> Inr (Turn ''user'' [TextPart (JStr (''[SYSTEM]: '' @ s))]))"
    using r by (rule translate_system_message)
next
  fix history i
  assume r: "own_prop m ''role'' = JStr ''system''"
    and "translate_history h ms = Inr history \<and> i < length ms - 1 \<and> ms ! i = m"
  then have "translate_message h m = Inr (history ! i)"
    by (auto simp: translate_history_Inr_iff)
  then show "\<exists>s. ToString (own_prop m ''content'') = Inr s \<and>
             history ! i = Turn ''user'' [TextPart (JStr (''[SYSTEM]: '' @ s))]"
    unfolding translate_system_message [OF r] by (auto split: sum.splits)
qed

text \<open>An instance.\<close>

theorem system_message_turn_witness:
  "own_prop (example_messages ! 0) ''role'' = JStr ''system'' \<and>
   ToString (own_prop (example_messages ! 0) ''content'') = Inr ''[object Object],3'' \<and>
   translate_message example_host (example_messages ! 0) =
     Inr (Turn ''user'' [TextPart (JStr ''[SYSTEM]: [object Object],3'')]) \<and>
   translate_message example_host
       (JObj [(''role'', JStr ''system''), (''content'', JStr ''be brief'')]) =
     Inr (Turn ''user'' [TextPart (JStr ''[SYSTEM]: be brief'')]) \<and>
   translate_message example_host
       (JObj [(''role'', JStr ''system''), (''content'', JObj [(''toString'', JNum ''1'')])]) =
     Inl not_primitive"
proof -
  have r: "own_prop (example_messages ! 0) ''role'' = JStr ''system''"
    by (simp add: example_messages_def)
  have s: "ToString (own_prop (example_messages ! 0) ''content'') = Inr ''[object Object],3''"
    by (simp add: example_messages_def)
  have a: "translate_message example_host (example_messages ! 0) =
     Inr (Turn ''user'' [TextPart (JStr ''[SYSTEM]: [object Object],3'')])"
    using system_message_turn [of "example_messages ! 0" example_host "[]"] r s by simp
  have b: "translate_message example_host
       (JObj [(''role'', JStr ''system''), (''content'', JStr ''be brief'')]) =
     Inr (Turn ''user'' [TextPart (JStr ''[SYSTEM]: be brief'')])"
    using system_message_turn [of "JObj [(''role'', JStr ''system''), (''content'', JStr ''be brief'')]"
        example_host "[]"] by simp
  have c: "translate_message example_host
       (JObj [(''role'', JStr ''system''), (''content'', JObj [(''toString'', JNum ''1'')])]) =
     Inl not_primitive"
    using system_message_turn [of "JObj [(''role'', JStr ''system''), (''content'', JObj [(''toString'', JNum ''1'')])]"
        example_host "[]"] by simp
  show ?thesis using r s a b c by simp
qed

subsection \<open>Images given as data URIs\<close>

text \<open>
  C6, as amended. A list of one \<open>image_url\<close> item whose URL is
  \<open>data:\<close>, a mime type, \<open>;base64,\<close> and a payload, where the mime type is not empty
  and has no semicolon and the payload is not empty and has no line terminator,
  normalizes to exactly one inline-data part with that mime type and that payload. So
  the data URI built from such a mime type and any non-empty sequence of bytes
  normalizes to the mime type and the base64 text of the bytes.
\<close>

theorem data_uri_normalization:
  "(own_prop item ''type'' = JStr ''image_url'' \<and>
    own_prop (own_prop item ''image_url'') ''url'' =
      JStr (''data:'' @ mimeType @ '';base64,'' @ base64Data) \<and>
    mimeType \<noteq> [] \<and> CHR '';'' \<notin> set mimeType \<and>
    base64Data \<noteq> [] \<and> line_terminator_free base64Data \<longrightarrow>
      processMessageContent h (JArr [item]) = Inr [InlineData (JStr base64Data) (JStr mimeType)]) \<and>
   (mimeType \<noteq> [] \<and> CHR '';'' \<notin> set mimeType \<and> bytes \<noteq> [] \<longrightarrow>
      processMessageContent h (JArr [image_item (data_uri mimeType bytes)]) =
        Inr [InlineData (JStr (base64 bytes)) (JStr mimeType)])"
proof (intro conjI impI)
  assume "own_prop item ''type'' = JStr ''image_url'' \<and>
    own_prop (own_prop item ''image_url'') ''url'' =
      JStr (''data:'' @ mimeType @ '';base64,'' @ base64Data) \<and>
    mimeType \<noteq> [] \<and> CHR '';'' \<notin> set mimeType \<and>
    base64Data \<noteq> [] \<and> line_terminator_free base64Data"
  then show "processMessageContent h (JArr [item]) = Inr [InlineData (JStr base64Data) (JStr mimeType)]"
    using normalize_data_uri by blast
next
  assume a: "mimeType \<noteq> [] \<and> CHR '';'' \<notin> set mimeType \<and> bytes \<noteq> []"
  have u: "own_prop (own_prop (image_item (data_uri mimeType bytes)) ''image_url'') ''url'' =
      JStr (''data:'' @ mimeType @ '';base64,'' @ base64 bytes)"
    unfolding image_item_props data_uri_def by (rule refl)
  have ne: "base64 bytes \<noteq> []" using a by (simp add: base64_empty_iff)
  show "processMessageContent h (JArr [image_item (data_uri mimeType bytes)]) =
        Inr [InlineData (JStr (base64 bytes)) (JStr mimeType)]"
    using normalize_data_uri [OF image_item_props(1) u _ _ ne base64_line_terminator_free] a
    by blast
qed

text \<open>An instance.\<close>

theorem data_uri_normalization_witness:
  "processMessageContent example_host (JArr [image_item ''data:image/png;base64,TWFu'']) =
     Inr [InlineData (JStr ''TWFu'') (JStr ''image/png'')] \<and>
   data_uri ''image/png'' ''Man'' = ''data:image/png;base64,TWFu'' \<and>
   processMessageContent example_host (JArr [image_item (data_uri ''image/png'' ''Man'')]) =
     Inr [InlineData (JStr (base64 ''Man'')) (JStr ''image/png'')]"
proof -
  have b: "base64 ''Man'' = ''TWFu''" by code_simp
  have d: "data_uri ''image/png'' ''Man'' = ''data:image/png;base64,TWFu''"
    unfolding data_uri_def b by simp
  have r: "processMessageContent example_host (JArr [image_item (data_uri ''image/png'' ''Man'')]) =
     Inr [InlineData (JStr (base64 ''Man'')) (JStr ''image/png'')]"
    using data_uri_normalization [of "image_item ''x''" "''image/png''" "''x''" example_host "''Man''"]
    by simp
  have r': "processMessageContent example_host (JArr [image_item ''data:image/png;base64,TWFu'']) =
     Inr [InlineData (JStr ''TWFu'') (JStr ''image/png'')]"
    using r unfolding d b .
  show ?thesis using r r' d by blast
qed

text \<open>
  C6 as it was stated, for any bytes and any mime type, fails: the data URI of an
  empty image, and one whose mime type carries a parameter, normalize to the
  placeholder text part, not to an inline-data part.
\<close>

theorem data_uri_rejected:
  "processMessageContent example_host (JArr [image_item (data_uri ''image/png'' [])]) =
     Inr [unsupported] \<and>
   processMessageContent example_host (JArr [image_item (data_uri ''image/png'' [])]) \<noteq>
     Inr [InlineData (JStr (base64 [])) (JStr ''image/png'')] \<and>
   processMessageContent example_host
       (JArr [image_item (data_uri ''text/plain;charset=utf-8'' ''Man'')]) =
     Inr [unsupported] \<and>
   processMessageContent example_host
       (JArr [image_item (data_uri ''text/plain;charset=utf-8'' ''Man'')]) \<noteq>
     Inr [InlineData (JStr (base64 ''Man'')) (JStr ''text/plain;charset=utf-8'')]"
  by code_simp

section \<open>Properties of the handlers\<close>

subsection \<open>Auxiliary facts\<close>

lemma write_chunks_eq:
  "write_chunks rid cr fs r =
     r\<lparr>written := written r @ map (\<lambda>t. Data (chunkEvent rid cr t)) (filter (\<lambda>t. t \<noteq> []) fs)\<rparr>"
  by (induction fs arbitrary: r) (simp_all add: res_write_def)

lemma written_write_chunks:
  "written (write_chunks rid cr fs r) =
     written r @ map (\<lambda>t. Data (chunkEvent rid cr t)) (filter (\<lambda>t. t \<noteq> []) fs)"
  by (simp add: write_chunks_eq)

lemma content_deltas_append: "content_deltas (xs @ ys) = content_deltas xs @ content_deltas ys"
  by (induction xs rule: content_deltas.induct) simp_all

lemma content_deltas_chunks:
  "content_deltas (map (\<lambda>t. Data (chunkEvent rid cr t)) ts) = ts"
  by (induction ts) (simp_all add: chunkEvent_def)

lemma stream_attempt_completed:
  assumes "sendMessageStream be (backend_state w) model cfg hist ps = (Inr (ChunkStream fs None), b)"
  shows "stream_attempt be cfg hist ps rid cr model w =
     (Inr (), \<lparr>res = res_end (res_write Done (res_write (Data (finishEvent rid cr))
                        (write_chunks rid cr fs (res w)))),
               backend_state = b\<rparr>)"
  using assms by (simp add: stream_attempt_def Let_def)

lemma stream_attempt_broken:
  assumes "sendMessageStream be (backend_state w) model cfg hist ps = (Inr (ChunkStream fs (Some err)), b)"
  shows "stream_attempt be cfg hist ps rid cr model w =
     (Inl err, \<lparr>res = write_chunks rid cr fs (res w), backend_state = b\<rparr>)"
  using assms by (simp add: stream_attempt_def Let_def)

lemma stream_attempt_refused:
  assumes "sendMessageStream be (backend_state w) model cfg hist ps = (Inl err, b)"
  shows "stream_attempt be cfg hist ps rid cr model w = (Inl err, w\<lparr>backend_state := b\<rparr>)"
  using assms by (simp add: stream_attempt_def Let_def)

lemma retry_loop_invariant:
  assumes step: "\<And>m w r w'. I w \<Longrightarrow> f m w = (r, w') \<Longrightarrow> I w'"
  shows "I (world s) \<Longrightarrow> I (world (snd (retry_loop pool f n k s)))"
proof (induction d \<equiv> "n - k" arbitrary: k s)
  case 0
  then have "\<not> k < n" by simp
  then show ?case using "0.prems" by (simp add: retry_loop_spent)
next
  case (Suc d)
  then have kn: "k < n" by simp
  obtain r w where fw: "f (getGenerativeModel pool (currentApiKeyIndex s)) (world s) = (r, w)"
    by fastforce
  have Iw: "I w" using step [OF Suc.prems fw] .
  show ?case
  proof (cases r)
    case (Inr x)
    then show ?thesis using retry_loop_success [where apiCallFn = f and apiKeyPool = pool and s = s, OF kn fw [unfolded Inr]] Iw by simp
  next
    case (Inl err)
    show ?thesis
    proof (cases "is429Error err \<and> Suc k < n")
      case True
      have d: "d = n - Suc k" using Suc.hyps(2) by simp
      have "I (world (snd (retry_loop pool f n (Suc k)
              \<lparr>currentApiKeyIndex = next_index pool (currentApiKeyIndex s), world = w\<rparr>)))"
        using Suc.hyps(1) [OF d] Iw by simp
      then show ?thesis
        using retry_loop_again [where apiCallFn = f and apiKeyPool = pool and s = s and retryCount = k
            and maxRetries = n and err = err and w = w] True fw Inl by simp
    next
      case False
      then consider "\<not> is429Error err" | "n = Suc k" using kn by linarith
      then show ?thesis
      proof cases
        case 1
        then show ?thesis using retry_loop_fatal [where apiCallFn = f and apiKeyPool = pool and s = s, OF kn fw [unfolded Inl]] Iw by simp
      next
        case 2
        then show ?thesis using retry_loop_last [where apiCallFn = f and apiKeyPool = pool and s = s, OF 2 fw [unfolded Inl]] Iw by simp
      qed
    qed
  qed
qed

lemma stream_attempt_logging:
  assumes "deltas_match_log w"
    and "stream_attempt (logging be) cfg hist ps rid cr m w = (r, w')"
  shows "deltas_match_log w'"
proof -
  obtain x b where s: "sendMessageStream be (snd (backend_state w)) m cfg hist ps = (x, b)"
    by fastforce
  show ?thesis
  proof (cases x)
    case (Inl err)
    then show ?thesis
      using assms s by (auto simp: stream_attempt_def logging_def deltas_match_log_def)
  next
    case (Inr st)
    obtain fs fl where st: "st = ChunkStream fs fl" by (cases st) auto
    show ?thesis
      using assms s Inr st
      by (cases fl)
         (auto simp: stream_attempt_def logging_def deltas_match_log_def Let_def
            written_write_chunks content_deltas_append content_deltas_chunks
            res_write_def res_end_def finishEvent_def)
  qed
qed

lemma send_attempt_logging:
  assumes "deltas_match_log w"
    and "send_attempt (logging be) cfg hist ps m w = (r, w')"
  shows "deltas_match_log w'"
  using assms by (auto simp: send_attempt_def logging_def deltas_match_log_def split: prod.splits)

lemma chat_completions_stream:
  assumes "translate_history h (messages body) = Inr history"
    and "last_message_parts h (messages body) = Inr lastMessageParts"
    and "truthy (stream body)"
  shows "chat_completions apiKeyPool h be now_id now_created body s0 =
     stream_branch apiKeyPool be (chatConfig_of body) history lastMessageParts now_id now_created
       \<lparr>currentApiKeyIndex = currentApiKeyIndex s0,
        world = \<lparr>res = fresh_response, backend_state = world s0\<rparr>\<rparr>"
  using assms by (simp add: chat_completions_def Let_def)

lemma stream_branch_start:
  "stream_branch apiKeyPool be cfg hist ps now_id now_created
       \<lparr>currentApiKeyIndex = c, world = \<lparr>res = fresh_response, backend_state = b\<rparr>\<rparr> =
     (case retry_loop apiKeyPool
             (stream_attempt be cfg hist ps (''chatcmpl-'' @ decimal now_id) (now_created div 1000))
             (length apiKeyPool) 0
             \<lparr>currentApiKeyIndex = c,
              world = \<lparr>res = \<lparr>statusCode = 200, headers = stream_headers,
                              written = [Data (startEvent (''chatcmpl-'' @ decimal now_id)
                                                (now_created div 1000))],
                              json = None, ended = False\<rparr>,
                       backend_state = b\<rparr>\<rparr> of
        (Inr u, s2) \<Rightarrow> s2
      | (Inl err, s2) \<Rightarrow>
          map_res (\<lambda>r. res_end (res_write Done
                     (res_write (DataError (message err) ''server_error'') r))) s2)"
  by (simp add: stream_branch_def Let_def executeWithRetry_default_def executeWithRetry_def
        map_res_def fresh_response_def setHeader_def res_write_def stream_headers_def)

lemma stream_first_attempt_completes:
  assumes ne: "apiKeyPool \<noteq> []"
    and be: "sendMessageStream be b (getGenerativeModel apiKeyPool c) cfg hist ps =
               (Inr (ChunkStream fs None), b')"
  shows "stream_branch apiKeyPool be cfg hist ps now_id now_created
       \<lparr>currentApiKeyIndex = c, world = \<lparr>res = fresh_response, backend_state = b\<rparr>\<rparr> =
     \<lparr>currentApiKeyIndex = c,
      world = \<lparr>res = \<lparr>statusCode = 200, headers = stream_headers,
                      written =
                        [Data (startEvent (''chatcmpl-'' @ decimal now_id) (now_created div 1000))] @
                        map (\<lambda>t. Data (chunkEvent (''chatcmpl-'' @ decimal now_id) (now_created div 1000) t))
                          (filter (\<lambda>t. t \<noteq> []) fs) @
                        [Data (finishEvent (''chatcmpl-'' @ decimal now_id) (now_created div 1000)), Done],
                      json = None, ended = True\<rparr>,
               backend_state = b'\<rparr>\<rparr>"
proof -
  let ?rid = "''chatcmpl-'' @ decimal now_id"
  let ?cr = "now_created div 1000"
  let ?r1 = "\<lparr>statusCode = 200, headers = stream_headers,
              written = [Data (startEvent ?rid ?cr)], json = None, ended = False\<rparr>"
  let ?s1 = "\<lparr>currentApiKeyIndex = c, world = \<lparr>res = ?r1, backend_state = b\<rparr>\<rparr>"
  have pos: "0 < length apiKeyPool" using ne by simp
  have att: "stream_attempt be cfg hist ps ?rid ?cr (getGenerativeModel apiKeyPool (currentApiKeyIndex ?s1))
        (world ?s1) =
      (Inr (), \<lparr>res = res_end (res_write Done (res_write (Data (finishEvent ?rid ?cr))
                        (write_chunks ?rid ?cr fs ?r1))), backend_state = b'\<rparr>)"
    using stream_attempt_completed [where be = be and w = "\<lparr>res = ?r1, backend_state = b\<rparr>"
        and model = "getGenerativeModel apiKeyPool c" and cfg = cfg and hist = hist and ps = ps
        and fs = fs and b = b' and rid = ?rid and cr = ?cr] be
    by simp
  have run: "retry_loop apiKeyPool (stream_attempt be cfg hist ps ?rid ?cr) (length apiKeyPool) 0 ?s1 =
      (Inr (), ?s1\<lparr>world := \<lparr>res = res_end (res_write Done (res_write (Data (finishEvent ?rid ?cr))
                        (write_chunks ?rid ?cr fs ?r1))), backend_state = b'\<rparr>\<rparr>)"
    using retry_loop_success [where apiCallFn = "stream_attempt be cfg hist ps ?rid ?cr"
        and apiKeyPool = apiKeyPool and s = ?s1, OF pos att] .
  show ?thesis
    unfolding stream_branch_start run
    by (simp add: write_chunks_eq res_write_def res_end_def)
qed

lemma deltas_match_log_json:
  "deltas_match_log w \<Longrightarrow> deltas_match_log (w\<lparr>res := res_json j (res w)\<rparr>)"
  "deltas_match_log w \<Longrightarrow> deltas_match_log (w\<lparr>res := internal_error err (res w)\<rparr>)"
  "deltas_match_log w \<Longrightarrow>
     deltas_match_log (w\<lparr>res := res_end (res_write Done (res_write (DataError m t) (res w)))\<rparr>)"
  by (simp_all add: deltas_match_log_def res_json_def internal_error_def res_status_def
        res_end_def res_write_def content_deltas_append)

lemma chat_completions_deltas_match_log:
  "deltas_match_log (world (chat_completions apiKeyPool h (logging be) now_id now_created body
       \<lparr>currentApiKeyIndex = c, world = ([], b)\<rparr>))"
proof -
  let ?s = "\<lparr>currentApiKeyIndex = c, world = \<lparr>res = fresh_response, backend_state = ([] :: string list, b)\<rparr>\<rparr>"
  have init: "deltas_match_log (world ?s)"
    by (simp add: deltas_match_log_def fresh_response_def)
  have err: "deltas_match_log (world (map_res (internal_error e) ?s))" for e
    using deltas_match_log_json(2) [OF init] by (simp add: map_res_def)
  have str: "deltas_match_log (world (stream_branch apiKeyPool (logging be) cfg hist ps now_id now_created ?s))"
    for cfg hist ps
  proof -
    let ?rid = "''chatcmpl-'' @ decimal now_id"
    let ?cr = "now_created div 1000"
    let ?f = "stream_attempt (logging be) cfg hist ps ?rid ?cr"
    let ?s1 = "\<lparr>currentApiKeyIndex = c,
              world = \<lparr>res = \<lparr>statusCode = 200, headers = stream_headers,
                              written = [Data (startEvent ?rid ?cr)], json = None, ended = False\<rparr>,
                       backend_state = ([] :: string list, b)\<rparr>\<rparr>"
    have i1: "deltas_match_log (world ?s1)"
      by (simp add: deltas_match_log_def startEvent_def)
    have inv: "deltas_match_log (world (snd (retry_loop apiKeyPool ?f (length apiKeyPool) 0 ?s1)))"
      using retry_loop_invariant [where I = deltas_match_log and f = ?f and s = ?s1, OF _ i1]
        stream_attempt_logging by blast
    obtain r s2 where run: "retry_loop apiKeyPool ?f (length apiKeyPool) 0 ?s1 = (r, s2)"
      by fastforce
    have i2: "deltas_match_log (world s2)" using inv run by simp
    show ?thesis
      unfolding stream_branch_start run
      using i2 deltas_match_log_json(3) [OF i2]
      by (cases r) (simp_all add: map_res_def)
  qed
  have non: "deltas_match_log (world (non_stream_branch apiKeyPool (logging be) cfg hist ps now_id now_created ?s))"
    for cfg hist ps
  proof -
    let ?f = "send_attempt (logging be) cfg hist ps"
    have inv: "deltas_match_log (world (snd (retry_loop apiKeyPool ?f (length apiKeyPool) 0 ?s)))"
      using retry_loop_invariant [where I = deltas_match_log and f = ?f and s = ?s, OF _ init]
        send_attempt_logging by blast
    obtain r s2 where run: "retry_loop apiKeyPool ?f (length apiKeyPool) 0 ?s = (r, s2)"
      by fastforce
    have i2: "deltas_match_log (world s2)" using inv run by simp
    show ?thesis
      unfolding non_stream_branch_def executeWithRetry_default_def executeWithRetry_def run
      using i2 deltas_match_log_json(1,2) [OF i2]
      by (auto simp: map_res_def split: sum.splits)
  qed
  show ?thesis
    unfolding chat_completions_def Let_def
    using err str non by (simp split: sum.splits)
qed

lemma stream_attempt_transparent:
  assumes "same_but_log w v"
    and "stream_attempt (logging be) cfg hist ps rid cr m w = (r, w')"
    and "stream_attempt be cfg hist ps rid cr m v = (r', v')"
  shows "r = r' \<and> same_but_log w' v'"
  using assms
  by (auto simp: stream_attempt_def logging_def same_but_log_def Let_def
        split: prod.splits sum.splits option.splits)

lemma send_attempt_transparent:
  assumes "same_but_log w v"
    and "send_attempt (logging be) cfg hist ps m w = (r, w')"
    and "send_attempt be cfg hist ps m v = (r', v')"
  shows "r = r' \<and> same_but_log w' v'"
  using assms
  by (auto simp: send_attempt_def logging_def same_but_log_def split: prod.splits)

lemma same_but_log_map_res:
  assumes "same_but_log (world s) (world t)" "currentApiKeyIndex s = currentApiKeyIndex t"
  shows "same_but_log (world (map_res f s)) (world (map_res f t)) \<and>
         currentApiKeyIndex (map_res f s) = currentApiKeyIndex (map_res f t)"
  using assms by (simp add: map_res_def same_but_log_def)

lemma logging_transparent:
  "res (world (chat_completions pool h (logging be) now_id now_created body
          \<lparr>currentApiKeyIndex = c, world = (log, b)\<rparr>)) =
   res (world (chat_completions pool h be now_id now_created body
          \<lparr>currentApiKeyIndex = c, world = b\<rparr>))"
proof -
  let ?s = "\<lparr>currentApiKeyIndex = c, world = \<lparr>res = fresh_response, backend_state = (log, b)\<rparr>\<rparr>"
  let ?t = "\<lparr>currentApiKeyIndex = c, world = \<lparr>res = fresh_response, backend_state = b\<rparr>\<rparr>"
  have init: "same_but_log (world ?s) (world ?t)" "currentApiKeyIndex ?s = currentApiKeyIndex ?t"
    by (simp_all add: same_but_log_def)
  have str: "res (world (stream_branch pool (logging be) cfg hist ps now_id now_created ?s)) =
             res (world (stream_branch pool be cfg hist ps now_id now_created ?t))" for cfg hist ps
  proof -
    let ?rid = "''chatcmpl-'' @ decimal now_id"
    let ?cr = "now_created div 1000"
    let ?up = "\<lambda>r. res_write (Data (startEvent ?rid ?cr))
                   (setHeader ''Connection'' ''keep-alive''
                     (setHeader ''Cache-Control'' ''no-cache''
                       (setHeader ''Content-Type'' ''text/event-stream'' r)))"
    let ?f = "stream_attempt (logging be) cfg hist ps ?rid ?cr"
    let ?g = "stream_attempt be cfg hist ps ?rid ?cr"
    obtain r s2 where run1: "retry_loop pool ?f (length pool) 0 (map_res ?up ?s) = (r, s2)" by fastforce
    obtain r' t2 where run2: "retry_loop pool ?g (length pool) 0 (map_res ?up ?t) = (r', t2)" by fastforce
    have rel: "r = r' \<and> same_but_log (world s2) (world t2) \<and> currentApiKeyIndex s2 = currentApiKeyIndex t2"
    proof (rule retry_loop_simulation [where R = same_but_log and f = ?f and g = ?g
          and s = "map_res ?up ?s" and t = "map_res ?up ?t" and pool = pool
          and n = "length pool" and k = 0])
      fix m w v x w' y v'
      assume "same_but_log w v" "?f m w = (x, w')" "?g m v = (y, v')"
      then show "x = y \<and> same_but_log w' v'" by (rule stream_attempt_transparent)
    next
      show "same_but_log (world (map_res ?up ?s)) (world (map_res ?up ?t))"
        using same_but_log_map_res [OF init, of ?up] by blast
      show "currentApiKeyIndex (map_res ?up ?s) = currentApiKeyIndex (map_res ?up ?t)"
        by (simp add: map_res_def)
      show "retry_loop pool ?f (length pool) 0 (map_res ?up ?s) = (r, s2)" by (rule run1)
      show "retry_loop pool ?g (length pool) 0 (map_res ?up ?t) = (r', t2)" by (rule run2)
    qed
    show ?thesis
      unfolding stream_branch_def Let_def executeWithRetry_default_def executeWithRetry_def run1 run2
      using rel by (cases r') (auto simp: map_res_def same_but_log_def)
  qed
  have non: "res (world (non_stream_branch pool (logging be) cfg hist ps now_id now_created ?s)) =
             res (world (non_stream_branch pool be cfg hist ps now_id now_created ?t))" for cfg hist ps
  proof -
    let ?f = "send_attempt (logging be) cfg hist ps"
    let ?g = "send_attempt be cfg hist ps"
    obtain r s2 where run1: "retry_loop pool ?f (length pool) 0 ?s = (r, s2)" by fastforce
    obtain r' t2 where run2: "retry_loop pool ?g (length pool) 0 ?t = (r', t2)" by fastforce
    have rel: "r = r' \<and> same_but_log (world s2) (world t2) \<and> currentApiKeyIndex s2 = currentApiKeyIndex t2"
    proof (rule retry_loop_simulation [where R = same_but_log and f = ?f and g = ?g
          and s = ?s and t = ?t and pool = pool and n = "length pool" and k = 0])
      fix m w v x w' y v'
      assume "same_but_log w v" "?f m w = (x, w')" "?g m v = (y, v')"
      then show "x = y \<and> same_but_log w' v'" by (rule send_attempt_transparent)
    next
      show "same_but_log (world ?s) (world ?t)" by (rule init)
      show "currentApiKeyIndex ?s = currentApiKeyIndex ?t" by simp
      show "retry_loop pool ?f (length pool) 0 ?s = (r, s2)" by (rule run1)
      show "retry_loop pool ?g (length pool) 0 ?t = (r', t2)" by (rule run2)
    qed
    show ?thesis
      unfolding non_stream_branch_def executeWithRetry_default_def executeWithRetry_def run1 run2
      using rel by (auto simp: map_res_def same_but_log_def split: sum.splits)
  qed
  show ?thesis
    unfolding chat_completions_def Let_def
    using str non by (simp add: map_res_def split: sum.splits)
qed

lemma example_translation:
  "translate_history example_host (messages example_body) = Inr example_history"
  "last_message_parts example_host (messages example_body) = Inr [TextPart (JStr ''and now?'')]"
  "truthy (stream example_body)"
  by code_simp+

lemma example_clock: "decimal 1234 = ''1234''" "(5678::nat) div 1000 = 5"
  by code_simp+

lemma example_log:
  "fst (backend_state (world
     (chat_completions [''key-A'', ''key-B''] example_host (logging example_backend) 1234 5678
        example_body \<lparr>currentApiKeyIndex = Idx 0, world = ([], 0)\<rparr>))) = [''Hel'', [], ''Hel'', ''lo'']"
  by code_simp


lemma stream_break_step:
  assumes k: "Suc k < maxRetries"
    and a: "sendMessageStream be b (getGenerativeModel apiKeyPool c) cfg hist ps =
              (Inr (ChunkStream fs (Some err)), b1)"
    and lim: "is429Error err"
  shows "retry_loop apiKeyPool (stream_attempt be cfg hist ps rid cr) maxRetries k
           \<lparr>currentApiKeyIndex = c, world = \<lparr>res = r, backend_state = b\<rparr>\<rparr> =
         retry_loop apiKeyPool (stream_attempt be cfg hist ps rid cr) maxRetries (Suc k)
           \<lparr>currentApiKeyIndex = next_index apiKeyPool c,
            world = \<lparr>res = r\<lparr>written := written r @
                               map (\<lambda>t. Data (chunkEvent rid cr t)) (filter (\<lambda>t. t \<noteq> []) fs)\<rparr>,
                     backend_state = b1\<rparr>\<rparr>"
proof -
  let ?f = "stream_attempt be cfg hist ps rid cr"
  let ?s = "\<lparr>currentApiKeyIndex = c, world = \<lparr>res = r, backend_state = b\<rparr>\<rparr>"
  have att: "?f (getGenerativeModel apiKeyPool (currentApiKeyIndex ?s)) (world ?s) =
      (Inl err, \<lparr>res = write_chunks rid cr fs r, backend_state = b1\<rparr>)"
    using stream_attempt_broken [where be = be and w = "\<lparr>res = r, backend_state = b\<rparr>"
        and model = "getGenerativeModel apiKeyPool c" and cfg = cfg and hist = hist and ps = ps
        and fs = fs and err = err and b = b1 and rid = rid and cr = cr] a
    by simp
  show ?thesis
    using retry_loop_again [where apiCallFn = ?f and apiKeyPool = apiKeyPool and s = ?s
        and retryCount = k and maxRetries = maxRetries, OF k att lim]
    by (simp add: write_chunks_eq)
qed

lemma state_after_Cons: "state_after b ((fs, err, b') # rest) = state_after b' rest"
  by (simp add: state_after_def)

lemma stream_breaks_run:
  "breaks_from be apiKeyPool cfg hist ps c b breaks \<Longrightarrow> k + length breaks < maxRetries \<Longrightarrow>
   retry_loop apiKeyPool (stream_attempt be cfg hist ps rid cr) maxRetries k
       \<lparr>currentApiKeyIndex = c, world = \<lparr>res = r, backend_state = b\<rparr>\<rparr> =
     retry_loop apiKeyPool (stream_attempt be cfg hist ps rid cr) maxRetries (k + length breaks)
       \<lparr>currentApiKeyIndex = (next_index apiKeyPool ^^ length breaks) c,
        world = \<lparr>res = r\<lparr>written := written r @
                           map (\<lambda>t. Data (chunkEvent rid cr t))
                             (filter (\<lambda>t. t \<noteq> []) (concat (map fst breaks)))\<rparr>,
                 backend_state = state_after b breaks\<rparr>\<rparr>"
proof (induction breaks arbitrary: k c b r)
  case Nil
  then show ?case by (simp add: state_after_def)
next
  case (Cons x rest)
  obtain fs err b' where x: "x = (fs, err, b')" by (cases x) auto
  let ?f = "stream_attempt be cfg hist ps rid cr"
  let ?r1 = "r\<lparr>written := written r @
               map (\<lambda>t. Data (chunkEvent rid cr t)) (filter (\<lambda>t. t \<noteq> []) fs)\<rparr>"
  have a: "sendMessageStream be b (getGenerativeModel apiKeyPool c) cfg hist ps =
              (Inr (ChunkStream fs (Some err)), b')"
    and lim: "is429Error err"
    and rest: "breaks_from be apiKeyPool cfg hist ps (next_index apiKeyPool c) b' rest"
    using Cons.prems(1) x by simp_all
  have k1: "Suc k < maxRetries" and k2: "Suc k + length rest < maxRetries"
    using Cons.prems(2) by simp_all
  have "retry_loop apiKeyPool ?f maxRetries k
       \<lparr>currentApiKeyIndex = c, world = \<lparr>res = r, backend_state = b\<rparr>\<rparr> =
     retry_loop apiKeyPool ?f maxRetries (Suc k)
       \<lparr>currentApiKeyIndex = next_index apiKeyPool c, world = \<lparr>res = ?r1, backend_state = b'\<rparr>\<rparr>"
    using stream_break_step [OF k1 a lim] .
  also have "\<dots> = retry_loop apiKeyPool ?f maxRetries (Suc k + length rest)
       \<lparr>currentApiKeyIndex = (next_index apiKeyPool ^^ length rest) (next_index apiKeyPool c),
        world = \<lparr>res = ?r1\<lparr>written := written ?r1 @
                           map (\<lambda>t. Data (chunkEvent rid cr t))
                             (filter (\<lambda>t. t \<noteq> []) (concat (map fst rest)))\<rparr>,
                 backend_state = state_after b' rest\<rparr>\<rparr>"
    using Cons.IH [OF rest k2] .
  finally show ?case
    by (simp add: x state_after_Cons funpow_swap1)
qed

lemma stream_attempt_appends:
  assumes "stream_attempt be cfg hist ps rid cr m w = (x, w')"
  shows "\<exists>frames. written (res w') = written (res w) @ frames"
proof -
  obtain y b where s: "sendMessageStream be (backend_state w) m cfg hist ps = (y, b)" by fastforce
  show ?thesis
  proof (cases y)
    case (Inl err)
    then show ?thesis using assms s by (auto simp: stream_attempt_def)
  next
    case (Inr st)
    obtain fs fl where st: "st = ChunkStream fs fl" by (cases st) auto
    show ?thesis
      using assms s Inr st
      by (cases fl)
         (auto simp: stream_attempt_def Let_def written_write_chunks res_write_def res_end_def)
  qed
qed

lemma retry_loop_appends:
  "\<exists>frames. written (res (world (snd (retry_loop apiKeyPool
       (stream_attempt be cfg hist ps rid cr) maxRetries k s)))) =
     written (res (world s)) @ frames"
proof -
  let ?I = "\<lambda>w. \<exists>frames. written (res w) = written (res (world s)) @ frames"
  have "?I (world (snd (retry_loop apiKeyPool (stream_attempt be cfg hist ps rid cr) maxRetries k s)))"
  proof (rule retry_loop_invariant [where I = ?I])
    fix m w x w'
    assume i: "\<exists>frames. written (res w) = written (res (world s)) @ frames"
      and a: "stream_attempt be cfg hist ps rid cr m w = (x, w')"
    from stream_attempt_appends [OF a] obtain fr where "written (res w') = written (res w) @ fr"
      by blast
    then show "\<exists>frames. written (res w') = written (res (world s)) @ frames"
      using i by auto
  next
    show "\<exists>frames. written (res (world s)) = written (res (world s)) @ frames" by simp
  qed
  then show ?thesis .
qed

lemma stream_branch_after_breaks:
  assumes br: "breaks_from be apiKeyPool cfg hist ps c b breaks"
    and len: "length breaks < length apiKeyPool"
  shows "stream_branch apiKeyPool be cfg hist ps now_id now_created
       \<lparr>currentApiKeyIndex = c, world = \<lparr>res = fresh_response, backend_state = b\<rparr>\<rparr> =
     (case retry_loop apiKeyPool
             (stream_attempt be cfg hist ps (''chatcmpl-'' @ decimal now_id) (now_created div 1000))
             (length apiKeyPool) (length breaks)
             \<lparr>currentApiKeyIndex = (next_index apiKeyPool ^^ length breaks) c,
              world = \<lparr>res = \<lparr>statusCode = 200, headers = stream_headers,
                              written =
                                Data (startEvent (''chatcmpl-'' @ decimal now_id) (now_created div 1000)) #
                                map (\<lambda>t. Data (chunkEvent (''chatcmpl-'' @ decimal now_id)
                                              (now_created div 1000) t))
                                  (filter (\<lambda>t. t \<noteq> []) (concat (map fst breaks))),
                              json = None, ended = False\<rparr>,
                       backend_state = state_after b breaks\<rparr>\<rparr> of
        (Inr u, s2) \<Rightarrow> s2
      | (Inl e, s2) \<Rightarrow>
          map_res (\<lambda>r. res_end (res_write Done
                     (res_write (DataError (message e) ''server_error'') r))) s2)"
proof -
  have k: "0 + length breaks < length apiKeyPool" using len by simp
  show ?thesis
    unfolding stream_branch_start
      stream_breaks_run [OF br k, where rid = "''chatcmpl-'' @ decimal now_id"
        and cr = "now_created div 1000"]
    by simp
qed

lemma stream_completes_after_breaks:
  assumes br: "breaks_from be apiKeyPool cfg hist ps c b breaks"
    and len: "length breaks < length apiKeyPool"
    and fin: "sendMessageStream be (state_after b breaks)
                (getGenerativeModel apiKeyPool ((next_index apiKeyPool ^^ length breaks) c))
                cfg hist ps = (Inr (ChunkStream fs None), b2)"
  shows "stream_branch apiKeyPool be cfg hist ps now_id now_created
       \<lparr>currentApiKeyIndex = c, world = \<lparr>res = fresh_response, backend_state = b\<rparr>\<rparr> =
     \<lparr>currentApiKeyIndex = (next_index apiKeyPool ^^ length breaks) c,
      world = \<lparr>res = \<lparr>statusCode = 200, headers = stream_headers,
                      written =
                        Data (startEvent (''chatcmpl-'' @ decimal now_id) (now_created div 1000)) #
                        map (\<lambda>t. Data (chunkEvent (''chatcmpl-'' @ decimal now_id) (now_created div 1000) t))
                          (filter (\<lambda>t. t \<noteq> []) (concat (map fst breaks) @ fs)) @
                        [Data (finishEvent (''chatcmpl-'' @ decimal now_id) (now_created div 1000)), Done],
                      json = None, ended = True\<rparr>,
               backend_state = b2\<rparr>\<rparr>"
proof -
  let ?rid = "''chatcmpl-'' @ decimal now_id"
  let ?cr = "now_created div 1000"
  let ?f = "stream_attempt be cfg hist ps ?rid ?cr"
  let ?rj = "\<lparr>statusCode = 200, headers = stream_headers,
              written = Data (startEvent ?rid ?cr) #
                map (\<lambda>t. Data (chunkEvent ?rid ?cr t)) (filter (\<lambda>t. t \<noteq> []) (concat (map fst breaks))),
              json = None, ended = False\<rparr>"
  let ?sj = "\<lparr>currentApiKeyIndex = (next_index apiKeyPool ^^ length breaks) c,
             world = \<lparr>res = ?rj, backend_state = state_after b breaks\<rparr>\<rparr>"
  let ?r3 = "res_end (res_write Done (res_write (Data (finishEvent ?rid ?cr)) (write_chunks ?rid ?cr fs ?rj)))"
  have att: "?f (getGenerativeModel apiKeyPool (currentApiKeyIndex ?sj)) (world ?sj) =
      (Inr (), \<lparr>res = ?r3, backend_state = b2\<rparr>)"
    using stream_attempt_completed [where be = be and w = "\<lparr>res = ?rj, backend_state = state_after b breaks\<rparr>"
        and model = "getGenerativeModel apiKeyPool ((next_index apiKeyPool ^^ length breaks) c)"
        and cfg = cfg and hist = hist and ps = ps and fs = fs and b = b2 and rid = ?rid and cr = ?cr] fin
    by simp
  have run: "retry_loop apiKeyPool ?f (length apiKeyPool) (length breaks) ?sj =
      (Inr (), ?sj\<lparr>world := \<lparr>res = ?r3, backend_state = b2\<rparr>\<rparr>)"
    using retry_loop_success [where apiCallFn = ?f and apiKeyPool = apiKeyPool and s = ?sj,
        OF len att] .
  show ?thesis
    unfolding stream_branch_after_breaks [OF br len] run
    by (simp add: write_chunks_eq res_write_def res_end_def)
qed

lemma flaky_example:
  "breaks_from flaky_backend [''key-A'', ''key-B'', ''key-C''] (chatConfig_of example_body)
     example_history [TextPart (JStr ''and now?'')] (Idx 0) 0
     [([''Hel''], quota_error, 1), ([''Hel'', []], quota_error, 2)]"
  "state_after (0::nat) [([''Hel''], quota_error, 1), ([''Hel'', []], quota_error, 2)] = 2"
  "(next_index [''key-A'', ''key-B'', ''key-C''] ^^
      length [([''Hel''], quota_error, 1::nat), ([''Hel'', []], quota_error, 2)]) (Idx 0) = Idx 2"
  "sendMessageStream flaky_backend 2 (getGenerativeModel [''key-A'', ''key-B'', ''key-C''] (Idx 2))
     (chatConfig_of example_body) example_history [TextPart (JStr ''and now?'')] =
     (Inr (ChunkStream [''Hel'', ''lo''] None), 3)"
  "sendMessageStream flaky_backend 1 (getGenerativeModel [''key-A'', ''key-B'', ''key-C''] (Idx 1))
     (chatConfig_of example_body) example_history [TextPart (JStr ''and now?'')] =
     (Inr (ChunkStream [''Hel'', []] (Some quota_error)), 2)"
  "is429Error quota_error"
  by code_simp+

subsection \<open>A stream that completes\<close>

text \<open>
  C2. A streaming request whose messages translate, served from a non-empty pool by a
  backend whose stream delivers \<open>Hel\<close>, then \<open>lo\<close>, and completes, gets exactly five
  frames: the role chunk, a content chunk for \<open>Hel\<close>, one for \<open>lo\<close>, the finish chunk
  with an empty delta and finish reason \<open>stop\<close>, and \<open>[DONE]\<close>; the four chunks carry
  the same id.
\<close>

theorem stream_hel_lo_frames:
  assumes "translate_history h (messages body) = Inr history"
    and "last_message_parts h (messages body) = Inr lastMessageParts"
    and "truthy (stream body)"
    and "apiKeyPool \<noteq> []"
    and "sendMessageStream be (world s0) (getGenerativeModel apiKeyPool (currentApiKeyIndex s0))
           (chatConfig_of body) history lastMessageParts =
         (Inr (ChunkStream [''Hel'', ''lo''] None), b)"
  shows "chat_completions apiKeyPool h be now_id now_created body s0 =
     \<lparr>currentApiKeyIndex = currentApiKeyIndex s0,
      world =
        \<lparr>res =
           \<lparr>statusCode = 200,
            headers = [(''Content-Type'', ''text/event-stream''), (''Cache-Control'', ''no-cache''),
                       (''Connection'', ''keep-alive'')],
            written =
              [Data (ChunkEvent (''chatcmpl-'' @ decimal now_id) ''chat.completion.chunk''
                       (now_created div 1000) model_name 0 (RoleDelta ''assistant'') None),
               Data (ChunkEvent (''chatcmpl-'' @ decimal now_id) ''chat.completion.chunk''
                       (now_created div 1000) model_name 0 (ContentDelta ''Hel'') None),
               Data (ChunkEvent (''chatcmpl-'' @ decimal now_id) ''chat.completion.chunk''
                       (now_created div 1000) model_name 0 (ContentDelta ''lo'') None),
               Data (ChunkEvent (''chatcmpl-'' @ decimal now_id) ''chat.completion.chunk''
                       (now_created div 1000) model_name 0 EmptyDelta (Some ''stop'')),
               Done],
            json = None, ended = True\<rparr>,
         backend_state = b\<rparr>\<rparr>"
  unfolding chat_completions_stream [OF assms(1-3)]
    stream_first_attempt_completes [OF assms(4,5)]
  by (simp add: startEvent_def chunkEvent_def finishEvent_def stream_headers_def)

text \<open>An instance.\<close>

theorem stream_hel_lo_frames_witness:
  "translate_history example_host (messages example_body) = Inr example_history \<and>
   last_message_parts example_host (messages example_body) = Inr [TextPart (JStr ''and now?'')] \<and>
   truthy (stream example_body) \<and> [''key-B''] \<noteq> [] \<and>
   sendMessageStream example_backend 0 (getGenerativeModel [''key-B''] (Idx 0))
       (chatConfig_of example_body) example_history [TextPart (JStr ''and now?'')] =
     (Inr (ChunkStream [''Hel'', ''lo''] None), 1) \<and>
   chat_completions [''key-B''] example_host example_backend 1234 5678 example_body
       \<lparr>currentApiKeyIndex = Idx 0, world = 0\<rparr> =
     \<lparr>currentApiKeyIndex = Idx 0,
      world =
        \<lparr>res =
           \<lparr>statusCode = 200,
            headers = [(''Content-Type'', ''text/event-stream''), (''Cache-Control'', ''no-cache''),
                       (''Connection'', ''keep-alive'')],
            written =
              [Data (ChunkEvent ''chatcmpl-1234'' ''chat.completion.chunk'' 5 model_name 0
                       (RoleDelta ''assistant'') None),
               Data (ChunkEvent ''chatcmpl-1234'' ''chat.completion.chunk'' 5 model_name 0
                       (ContentDelta ''Hel'') None),
               Data (ChunkEvent ''chatcmpl-1234'' ''chat.completion.chunk'' 5 model_name 0
                       (ContentDelta ''lo'') None),
               Data (ChunkEvent ''chatcmpl-1234'' ''chat.completion.chunk'' 5 model_name 0
                       EmptyDelta (Some ''stop'')),
               Done],
            json = None, ended = True\<rparr>,
         backend_state = 1\<rparr>\<rparr>"
proof -
  have ne: "[''key-B''] \<noteq> []" by simp
  have be: "sendMessageStream example_backend (world \<lparr>currentApiKeyIndex = Idx 0, world = 0\<rparr>)
       (getGenerativeModel [''key-B''] (currentApiKeyIndex \<lparr>currentApiKeyIndex = Idx 0, world = 0::nat\<rparr>))
       (chatConfig_of example_body) example_history [TextPart (JStr ''and now?'')] =
     (Inr (ChunkStream [''Hel'', ''lo''] None), 1)"
    by (simp add: example_backend_def getGenerativeModel_def getCurrentApiKey_def)
  have r: "chat_completions [''key-B''] example_host example_backend 1234 5678 example_body
       \<lparr>currentApiKeyIndex = Idx 0, world = 0\<rparr> =
     \<lparr>currentApiKeyIndex = Idx 0,
      world =
        \<lparr>res =
           \<lparr>statusCode = 200,
            headers = [(''Content-Type'', ''text/event-stream''), (''Cache-Control'', ''no-cache''),
                       (''Connection'', ''keep-alive'')],
            written =
              [Data (ChunkEvent (''chatcmpl-'' @ decimal 1234) ''chat.completion.chunk''
                       (5678 div 1000) model_name 0 (RoleDelta ''assistant'') None),
               Data (ChunkEvent (''chatcmpl-'' @ decimal 1234) ''chat.completion.chunk''
                       (5678 div 1000) model_name 0 (ContentDelta ''Hel'') None),
               Data (ChunkEvent (''chatcmpl-'' @ decimal 1234) ''chat.completion.chunk''
                       (5678 div 1000) model_name 0 (ContentDelta ''lo'') None),
               Data (ChunkEvent (''chatcmpl-'' @ decimal 1234) ''chat.completion.chunk''
                       (5678 div 1000) model_name 0 EmptyDelta (Some ''stop'')),
               Done],
            json = None, ended = True\<rparr>,
         backend_state = 1\<rparr>\<rparr>"
    using stream_hel_lo_frames [OF example_translation ne be, of 1234 5678] by simp
  show ?thesis
    using example_translation ne be r unfolding example_clock by simp
qed

subsection \<open>A stream that breaks and is retried\<close>

text \<open>
  C3. At any attempt after which another attempt is left, a stream that breaks with a
  rate-limited error after the fragments \<open>fs\<close> adds nothing to the response but the
  content chunks of \<open>fs\<close>: no error frame, no \<open>[DONE]\<close>, the response not ended. The
  loop goes on with the next attempt, at the next cursor, from that response, whatever
  that attempt will do; and whatever the loop does from any state, the frames written
  before stay as a prefix of the frames written after. For the whole handler: after any
  run of such breaks that leaves a credential, the response holds the role chunk and
  the content chunks of all broken attempts, and the closure runs again; when that
  attempt completes, its content chunks follow those of the broken attempts, then the
  finish chunk and \<open>[DONE]\<close>.
\<close>

theorem stream_retry_keeps_written_chunks:
  "(Suc k < maxRetries \<and>
    sendMessageStream be b (getGenerativeModel apiKeyPool c) cfg hist ps =
      (Inr (ChunkStream fs (Some err)), b1) \<and>
    is429Error err \<longrightarrow>
      retry_loop apiKeyPool (stream_attempt be cfg hist ps responseId cr) maxRetries k
          \<lparr>currentApiKeyIndex = c, world = \<lparr>res = r, backend_state = b\<rparr>\<rparr> =
        retry_loop apiKeyPool (stream_attempt be cfg hist ps responseId cr) maxRetries (Suc k)
          \<lparr>currentApiKeyIndex = next_index apiKeyPool c,
           world =
             \<lparr>res = r\<lparr>written := written r @
                   map (\<lambda>t. Data (ChunkEvent responseId ''chat.completion.chunk'' cr model_name 0
                                 (ContentDelta t) None))
                     (filter (\<lambda>t. t \<noteq> []) fs)\<rparr>,
              backend_state = b1\<rparr>\<rparr>) \<and>
   (\<exists>frames.
      written (res (world (snd (retry_loop apiKeyPool
          (stream_attempt be cfg hist ps responseId cr) maxRetries k s)))) =
        written (res (world s)) @ frames) \<and>
   (translate_history h (messages body) = Inr history \<and>
    last_message_parts h (messages body) = Inr lastMessageParts \<and>
    truthy (stream body) \<and>
    breaks_from be apiKeyPool (chatConfig_of body) history lastMessageParts
      (currentApiKeyIndex s0) (world s0) breaks \<and>
    length breaks < length apiKeyPool \<longrightarrow>
      chat_completions apiKeyPool h be now_id now_created body s0 =
        (case retry_loop apiKeyPool
                (stream_attempt be (chatConfig_of body) history lastMessageParts
                   (''chatcmpl-'' @ decimal now_id) (now_created div 1000))
                (length apiKeyPool) (length breaks)
                \<lparr>currentApiKeyIndex = (next_index apiKeyPool ^^ length breaks) (currentApiKeyIndex s0),
                 world =
                   \<lparr>res =
                      \<lparr>statusCode = 200,
                       headers = [(''Content-Type'', ''text/event-stream''),
                                  (''Cache-Control'', ''no-cache''), (''Connection'', ''keep-alive'')],
                       written =
                         Data (ChunkEvent (''chatcmpl-'' @ decimal now_id) ''chat.completion.chunk''
                                 (now_created div 1000) model_name 0 (RoleDelta ''assistant'') None) #
                         map (\<lambda>t. Data (ChunkEvent (''chatcmpl-'' @ decimal now_id)
                                       ''chat.completion.chunk'' (now_created div 1000) model_name 0
                                       (ContentDelta t) None))
                           (filter (\<lambda>t. t \<noteq> []) (concat (map fst breaks))),
                       json = None, ended = False\<rparr>,
                    backend_state = state_after (world s0) breaks\<rparr>\<rparr> of
           (Inr u, s2) \<Rightarrow> s2
         | (Inl e, s2) \<Rightarrow>
             map_res (\<lambda>r. res_end (res_write Done
                        (res_write (DataError (message e) ''server_error'') r))) s2)) \<and>
   (translate_history h (messages body) = Inr history \<and>
    last_message_parts h (messages body) = Inr lastMessageParts \<and>
    truthy (stream body) \<and>
    breaks_from be apiKeyPool (chatConfig_of body) history lastMessageParts
      (currentApiKeyIndex s0) (world s0) breaks \<and>
    length breaks < length apiKeyPool \<and>
    sendMessageStream be (state_after (world s0) breaks)
        (getGenerativeModel apiKeyPool
           ((next_index apiKeyPool ^^ length breaks) (currentApiKeyIndex s0)))
        (chatConfig_of body) history lastMessageParts =
      (Inr (ChunkStream fs2 None), b2) \<longrightarrow>
      chat_completions apiKeyPool h be now_id now_created body s0 =
        \<lparr>currentApiKeyIndex = (next_index apiKeyPool ^^ length breaks) (currentApiKeyIndex s0),
         world =
           \<lparr>res =
              \<lparr>statusCode = 200,
               headers = [(''Content-Type'', ''text/event-stream''),
                          (''Cache-Control'', ''no-cache''), (''Connection'', ''keep-alive'')],
               written =
                 Data (ChunkEvent (''chatcmpl-'' @ decimal now_id) ''chat.completion.chunk''
                         (now_created div 1000) model_name 0 (RoleDelta ''assistant'') None) #
                 map (\<lambda>t. Data (ChunkEvent (''chatcmpl-'' @ decimal now_id) ''chat.completion.chunk''
                               (now_created div 1000) model_name 0 (ContentDelta t) None))
                   (filter (\<lambda>t. t \<noteq> []) (concat (map fst breaks) @ fs2)) @
                 [Data (ChunkEvent (''chatcmpl-'' @ decimal now_id) ''chat.completion.chunk''
                          (now_created div 1000) model_name 0 EmptyDelta (Some ''stop'')),
                  Done],
               json = None, ended = True\<rparr>,
            backend_state = b2\<rparr>\<rparr>)"
proof (intro conjI impI)
  assume a: "Suc k < maxRetries \<and>
    sendMessageStream be b (getGenerativeModel apiKeyPool c) cfg hist ps =
      (Inr (ChunkStream fs (Some err)), b1) \<and>
    is429Error err"
  then have k: "Suc k < maxRetries"
    and s: "sendMessageStream be b (getGenerativeModel apiKeyPool c) cfg hist ps =
      (Inr (ChunkStream fs (Some err)), b1)"
    and l: "is429Error err" by simp_all
  show "retry_loop apiKeyPool (stream_attempt be cfg hist ps responseId cr) maxRetries k
          \<lparr>currentApiKeyIndex = c, world = \<lparr>res = r, backend_state = b\<rparr>\<rparr> =
        retry_loop apiKeyPool (stream_attempt be cfg hist ps responseId cr) maxRetries (Suc k)
          \<lparr>currentApiKeyIndex = next_index apiKeyPool c,
           world =
             \<lparr>res = r\<lparr>written := written r @
                   map (\<lambda>t. Data (ChunkEvent responseId ''chat.completion.chunk'' cr model_name 0
                                 (ContentDelta t) None))
                     (filter (\<lambda>t. t \<noteq> []) fs)\<rparr>,
              backend_state = b1\<rparr>\<rparr>"
    using stream_break_step [OF k s l, of responseId cr r] by (simp add: chunkEvent_def)
next
  show "\<exists>frames.
      written (res (world (snd (retry_loop apiKeyPool
          (stream_attempt be cfg hist ps responseId cr) maxRetries k s)))) =
        written (res (world s)) @ frames"
    by (rule retry_loop_appends)
next
  assume a: "translate_history h (messages body) = Inr history \<and>
    last_message_parts h (messages body) = Inr lastMessageParts \<and>
    truthy (stream body) \<and>
    breaks_from be apiKeyPool (chatConfig_of body) history lastMessageParts
      (currentApiKeyIndex s0) (world s0) breaks \<and>
    length breaks < length apiKeyPool"
  then have t: "translate_history h (messages body) = Inr history"
      "last_message_parts h (messages body) = Inr lastMessageParts" "truthy (stream body)"
    and br: "breaks_from be apiKeyPool (chatConfig_of body) history lastMessageParts
      (currentApiKeyIndex s0) (world s0) breaks"
    and len: "length breaks < length apiKeyPool" by simp_all
  show "chat_completions apiKeyPool h be now_id now_created body s0 =
        (case retry_loop apiKeyPool
                (stream_attempt be (chatConfig_of body) history lastMessageParts
                   (''chatcmpl-'' @ decimal now_id) (now_created div 1000))
                (length apiKeyPool) (length breaks)
                \<lparr>currentApiKeyIndex = (next_index apiKeyPool ^^ length breaks) (currentApiKeyIndex s0),
                 world =
                   \<lparr>res =
                      \<lparr>statusCode = 200,
                       headers = [(''Content-Type'', ''text/event-stream''),
                                  (''Cache-Control'', ''no-cache''), (''Connection'', ''keep-alive'')],
                       written =
                         Data (ChunkEvent (''chatcmpl-'' @ decimal now_id) ''chat.completion.chunk''
                                 (now_created div 1000) model_name 0 (RoleDelta ''assistant'') None) #
                         map (\<lambda>t. Data (ChunkEvent (''chatcmpl-'' @ decimal now_id)
                                       ''chat.completion.chunk'' (now_created div 1000) model_name 0
                                       (ContentDelta t) None))
                           (filter (\<lambda>t. t \<noteq> []) (concat (map fst breaks))),
                       json = None, ended = False\<rparr>,
                    backend_state = state_after (world s0) breaks\<rparr>\<rparr> of
           (Inr u, s2) \<Rightarrow> s2
         | (Inl e, s2) \<Rightarrow>
             map_res (\<lambda>r. res_end (res_write Done
                        (res_write (DataError (message e) ''server_error'') r))) s2)"
    unfolding chat_completions_stream [OF t] stream_branch_after_breaks [OF br len]
    by (simp add: startEvent_def chunkEvent_def stream_headers_def)
next
  assume a: "translate_history h (messages body) = Inr history \<and>
    last_message_parts h (messages body) = Inr lastMessageParts \<and>
    truthy (stream body) \<and>
    breaks_from be apiKeyPool (chatConfig_of body) history lastMessageParts
      (currentApiKeyIndex s0) (world s0) breaks \<and>
    length breaks < length apiKeyPool \<and>
    sendMessageStream be (state_after (world s0) breaks)
        (getGenerativeModel apiKeyPool
           ((next_index apiKeyPool ^^ length breaks) (currentApiKeyIndex s0)))
        (chatConfig_of body) history lastMessageParts =
      (Inr (ChunkStream fs2 None), b2)"
  then have t: "translate_history h (messages body) = Inr history"
      "last_message_parts h (messages body) = Inr lastMessageParts" "truthy (stream body)"
    and br: "breaks_from be apiKeyPool (chatConfig_of body) history lastMessageParts
      (currentApiKeyIndex s0) (world s0) breaks"
    and len: "length breaks < length apiKeyPool"
    and fin: "sendMessageStream be (state_after (world s0) breaks)
        (getGenerativeModel apiKeyPool
           ((next_index apiKeyPool ^^ length breaks) (currentApiKeyIndex s0)))
        (chatConfig_of body) history lastMessageParts =
      (Inr (ChunkStream fs2 None), b2)" by simp_all
  show "chat_completions apiKeyPool h be now_id now_created body s0 =
        \<lparr>currentApiKeyIndex = (next_index apiKeyPool ^^ length breaks) (currentApiKeyIndex s0),
         world =
           \<lparr>res =
              \<lparr>statusCode = 200,
               headers = [(''Content-Type'', ''text/event-stream''),
                          (''Cache-Control'', ''no-cache''), (''Connection'', ''keep-alive'')],
               written =
                 Data (ChunkEvent (''chatcmpl-'' @ decimal now_id) ''chat.completion.chunk''
                         (now_created div 1000) model_name 0 (RoleDelta ''assistant'') None) #
                 map (\<lambda>t. Data (ChunkEvent (''chatcmpl-'' @ decimal now_id) ''chat.completion.chunk''
                               (now_created div 1000) model_name 0 (ContentDelta t) None))
                   (filter (\<lambda>t. t \<noteq> []) (concat (map fst breaks) @ fs2)) @
                 [Data (ChunkEvent (''chatcmpl-'' @ decimal now_id) ''chat.completion.chunk''
                          (now_created div 1000) model_name 0 EmptyDelta (Some ''stop'')),
                  Done],
               json = None, ended = True\<rparr>,
            backend_state = b2\<rparr>\<rparr>"
    unfolding chat_completions_stream [OF t] stream_completes_after_breaks [OF br len fin]
    by (simp add: startEvent_def chunkEvent_def finishEvent_def stream_headers_def)
qed

text \<open>An instance: three credentials, the first two over their quota.\<close>

theorem stream_retry_keeps_written_chunks_witness:
  "translate_history example_host (messages example_body) = Inr example_history \<and>
   last_message_parts example_host (messages example_body) = Inr [TextPart (JStr ''and now?'')] \<and>
   truthy (stream example_body) \<and>
   breaks_from flaky_backend [''key-A'', ''key-B'', ''key-C''] (chatConfig_of example_body)
     example_history [TextPart (JStr ''and now?'')] (Idx 0) 0
     [([''Hel''], quota_error, 1), ([''Hel'', []], quota_error, 2)] \<and>
   length [([''Hel''], quota_error, 1::nat), ([''Hel'', []], quota_error, 2)] <
     length [''key-A'', ''key-B'', ''key-C''] \<and>
   sendMessageStream flaky_backend 2 (getGenerativeModel [''key-A'', ''key-B'', ''key-C''] (Idx 2))
     (chatConfig_of example_body) example_history [TextPart (JStr ''and now?'')] =
     (Inr (ChunkStream [''Hel'', ''lo''] None), 3) \<and>
   chat_completions [''key-A'', ''key-B'', ''key-C''] example_host flaky_backend 1234 5678 example_body
       \<lparr>currentApiKeyIndex = Idx 0, world = 0\<rparr> =
     \<lparr>currentApiKeyIndex = Idx 2,
      world =
        \<lparr>res =
           \<lparr>statusCode = 200,
            headers = [(''Content-Type'', ''text/event-stream''), (''Cache-Control'', ''no-cache''),
                       (''Connection'', ''keep-alive'')],
            written =
              [Data (ChunkEvent ''chatcmpl-1234'' ''chat.completion.chunk'' 5 model_name 0
                       (RoleDelta ''assistant'') None),
               Data (ChunkEvent ''chatcmpl-1234'' ''chat.completion.chunk'' 5 model_name 0
                       (ContentDelta ''Hel'') None),
               Data (ChunkEvent ''chatcmpl-1234'' ''chat.completion.chunk'' 5 model_name 0
                       (ContentDelta ''Hel'') None),
               Data (ChunkEvent ''chatcmpl-1234'' ''chat.completion.chunk'' 5 model_name 0
                       (ContentDelta ''Hel'') None),
               Data (ChunkEvent ''chatcmpl-1234'' ''chat.completion.chunk'' 5 model_name 0
                       (ContentDelta ''lo'') None),
               Data (ChunkEvent ''chatcmpl-1234'' ''chat.completion.chunk'' 5 model_name 0
                       EmptyDelta (Some ''stop'')),
               Done],
            json = None, ended = True\<rparr>,
         backend_state = 3\<rparr>\<rparr> \<and>
   Suc 1 < (3::nat) \<and>
   sendMessageStream flaky_backend 1 (getGenerativeModel [''key-A'', ''key-B'', ''key-C''] (Idx 1))
     (chatConfig_of example_body) example_history [TextPart (JStr ''and now?'')] =
     (Inr (ChunkStream [''Hel'', []] (Some quota_error)), 2) \<and>
   is429Error quota_error \<and>
   retry_loop [''key-A'', ''key-B'', ''key-C'']
       (stream_attempt flaky_backend (chatConfig_of example_body) example_history
          [TextPart (JStr ''and now?'')] ''chatcmpl-1234'' 5) 3 1
       \<lparr>currentApiKeyIndex = Idx 1, world = \<lparr>res = fresh_response, backend_state = 1\<rparr>\<rparr> =
     retry_loop [''key-A'', ''key-B'', ''key-C'']
       (stream_attempt flaky_backend (chatConfig_of example_body) example_history
          [TextPart (JStr ''and now?'')] ''chatcmpl-1234'' 5) 3 (Suc 1)
       \<lparr>currentApiKeyIndex = Idx 2,
        world =
          \<lparr>res = fresh_response\<lparr>written := written fresh_response @
                [Data (ChunkEvent ''chatcmpl-1234'' ''chat.completion.chunk'' 5 model_name 0
                         (ContentDelta ''Hel'') None)]\<rparr>,
           backend_state = 2\<rparr>\<rparr>"
proof -
  let ?pool = "[''key-A'', ''key-B'', ''key-C'']"
  let ?breaks = "[([''Hel''], quota_error, 1::nat), ([''Hel'', []], quota_error, 2)]"
  let ?s0 = "\<lparr>currentApiKeyIndex = Idx 0, world = 0::nat\<rparr>"
  have len: "length ?breaks < length ?pool" by simp
  have k: "Suc 1 < (3::nat)" by simp
  have nx: "next_index ?pool (Idx 1) = Idx 2" by simp
  have fin: "sendMessageStream flaky_backend (state_after (world ?s0) ?breaks)
        (getGenerativeModel ?pool ((next_index ?pool ^^ length ?breaks) (currentApiKeyIndex ?s0)))
        (chatConfig_of example_body) example_history [TextPart (JStr ''and now?'')] =
      (Inr (ChunkStream [''Hel'', ''lo''] None), 3)"
    by code_simp
  have e1: "(next_index ?pool ^^ length ?breaks) (currentApiKeyIndex ?s0) = Idx 2"
    by code_simp
  have br: "breaks_from flaky_backend ?pool (chatConfig_of example_body) example_history
      [TextPart (JStr ''and now?'')] (currentApiKeyIndex ?s0) (world ?s0) ?breaks"
    using flaky_example(1) by simp
  note t = stream_retry_keeps_written_chunks [where apiKeyPool = ?pool and be = flaky_backend
      and h = example_host and body = example_body and history = example_history
      and lastMessageParts = "[TextPart (JStr ''and now?'')]" and ?s0.0 = ?s0 and breaks = ?breaks
      and ?fs2.0 = "[''Hel'', ''lo'']" and ?b2.0 = 3 and now_id = 1234 and now_created = 5678
      and k = 1 and maxRetries = 3 and b = 1 and c = "Idx 1" and cfg = "chatConfig_of example_body"
      and hist = example_history and ps = "[TextPart (JStr ''and now?'')]"
      and fs = "[''Hel'', []]" and err = quota_error and ?b1.0 = 2
      and responseId = "''chatcmpl-1234''" and cr = 5 and r = fresh_response]
  have r1: "chat_completions ?pool example_host flaky_backend 1234 5678 example_body ?s0 =
     \<lparr>currentApiKeyIndex = Idx 2,
      world =
        \<lparr>res =
           \<lparr>statusCode = 200,
            headers = [(''Content-Type'', ''text/event-stream''), (''Cache-Control'', ''no-cache''),
                       (''Connection'', ''keep-alive'')],
            written =
              [Data (ChunkEvent ''chatcmpl-1234'' ''chat.completion.chunk'' 5 model_name 0
                       (RoleDelta ''assistant'') None),
               Data (ChunkEvent ''chatcmpl-1234'' ''chat.completion.chunk'' 5 model_name 0
                       (ContentDelta ''Hel'') None),
               Data (ChunkEvent ''chatcmpl-1234'' ''chat.completion.chunk'' 5 model_name 0
                       (ContentDelta ''Hel'') None),
               Data (ChunkEvent ''chatcmpl-1234'' ''chat.completion.chunk'' 5 model_name 0
                       (ContentDelta ''Hel'') None),
               Data (ChunkEvent ''chatcmpl-1234'' ''chat.completion.chunk'' 5 model_name 0
                       (ContentDelta ''lo'') None),
               Data (ChunkEvent ''chatcmpl-1234'' ''chat.completion.chunk'' 5 model_name 0
                       EmptyDelta (Some ''stop'')),
               Done],
            json = None, ended = True\<rparr>,
         backend_state = 3\<rparr>\<rparr>"
    using t [THEN conjunct2, THEN conjunct2, THEN conjunct2, THEN mp,
        OF conjI [OF example_translation(1) conjI [OF example_translation(2)
          conjI [OF example_translation(3) conjI [OF br conjI [OF len fin]]]]]]
    unfolding e1 example_clock by simp
  have r2: "retry_loop ?pool
       (stream_attempt flaky_backend (chatConfig_of example_body) example_history
          [TextPart (JStr ''and now?'')] ''chatcmpl-1234'' 5) 3 1
       \<lparr>currentApiKeyIndex = Idx 1, world = \<lparr>res = fresh_response, backend_state = 1\<rparr>\<rparr> =
     retry_loop ?pool
       (stream_attempt flaky_backend (chatConfig_of example_body) example_history
          [TextPart (JStr ''and now?'')] ''chatcmpl-1234'' 5) 3 (Suc 1)
       \<lparr>currentApiKeyIndex = Idx 2,
        world =
          \<lparr>res = fresh_response\<lparr>written := written fresh_response @
                [Data (ChunkEvent ''chatcmpl-1234'' ''chat.completion.chunk'' 5 model_name 0
                         (ContentDelta ''Hel'') None)]\<rparr>,
           backend_state = 2\<rparr>\<rparr>"
    using t [THEN conjunct1, THEN mp, OF conjI [OF k conjI [OF flaky_example(5) flaky_example(6)]]]
    unfolding nx by simp
  show ?thesis
    using example_translation flaky_example(1,4,5,6) len k r1 r2 by simp
qed

subsection \<open>Empty fragments\<close>

text \<open>
  C10. The loop over a stream writes one content chunk for each non-empty fragment and
  none for an empty one. Over a whole request, retries included, the content chunks
  written are exactly the non-empty fragments the backend delivered, in order; the
  backend that keeps the record gets the same response as the backend itself. So no
  content chunk of a response is empty, and there are as many of them as non-empty
  fragments.
\<close>

theorem delta_chunks_are_nonempty_fragments:
  "written (write_chunks responseId cr fs r) =
     written r @
     map (\<lambda>t. Data (ChunkEvent responseId ''chat.completion.chunk'' cr model_name 0 (ContentDelta t) None))
       (filter (\<lambda>t. t \<noteq> []) fs) \<and>
   content_deltas (written (res (world
       (chat_completions apiKeyPool h (logging be) now_id now_created body
          \<lparr>currentApiKeyIndex = c, world = ([], b)\<rparr>)))) =
     filter (\<lambda>t. t \<noteq> [])
       (fst (backend_state (world
          (chat_completions apiKeyPool h (logging be) now_id now_created body
             \<lparr>currentApiKeyIndex = c, world = ([], b)\<rparr>)))) \<and>
   res (world (chat_completions apiKeyPool h (logging be) now_id now_created body
          \<lparr>currentApiKeyIndex = c, world = ([], b)\<rparr>)) =
     res (world (chat_completions apiKeyPool h be now_id now_created body
          \<lparr>currentApiKeyIndex = c, world = b\<rparr>)) \<and>
   [] \<notin> set (content_deltas (written (res (world
       (chat_completions apiKeyPool h be now_id now_created body
          \<lparr>currentApiKeyIndex = c, world = b\<rparr>))))) \<and>
   length (content_deltas (written (res (world
       (chat_completions apiKeyPool h be now_id now_created body
          \<lparr>currentApiKeyIndex = c, world = b\<rparr>))))) =
     length (filter (\<lambda>t. t \<noteq> [])
       (fst (backend_state (world
          (chat_completions apiKeyPool h (logging be) now_id now_created body
             \<lparr>currentApiKeyIndex = c, world = ([], b)\<rparr>)))))"
proof -
  let ?L = "chat_completions apiKeyPool h (logging be) now_id now_created body
          \<lparr>currentApiKeyIndex = c, world = ([], b)\<rparr>"
  let ?P = "chat_completions apiKeyPool h be now_id now_created body
          \<lparr>currentApiKeyIndex = c, world = b\<rparr>"
  have w: "written (write_chunks responseId cr fs r) =
     written r @
     map (\<lambda>t. Data (ChunkEvent responseId ''chat.completion.chunk'' cr model_name 0 (ContentDelta t) None))
       (filter (\<lambda>t. t \<noteq> []) fs)"
    using written_write_chunks [of responseId cr fs r] by (simp add: chunkEvent_def)
  have l: "content_deltas (written (res (world ?L))) =
      filter (\<lambda>t. t \<noteq> []) (fst (backend_state (world ?L)))"
    using chat_completions_deltas_match_log [of apiKeyPool h be now_id now_created body c b]
    by (simp add: deltas_match_log_def)
  have t: "res (world ?L) = res (world ?P)"
    by (rule logging_transparent)
  have p: "content_deltas (written (res (world ?P))) =
      filter (\<lambda>t. t \<noteq> []) (fst (backend_state (world ?L)))"
    using l unfolding t .
  have n: "[] \<notin> set (content_deltas (written (res (world ?P))))"
    unfolding p by simp
  have e: "length (content_deltas (written (res (world ?P)))) =
      length (filter (\<lambda>t. t \<noteq> []) (fst (backend_state (world ?L))))"
    unfolding p by (rule refl)
  show ?thesis
    by (intro conjI) (rule w, rule l, rule t, rule n, rule e)
qed

text \<open>An instance.\<close>

theorem delta_chunks_are_nonempty_fragments_witness:
  "fst (backend_state (world
     (chat_completions [''key-A'', ''key-B''] example_host (logging example_backend) 1234 5678
        example_body \<lparr>currentApiKeyIndex = Idx 0, world = ([], 0)\<rparr>))) = [''Hel'', [], ''Hel'', ''lo''] \<and>
   content_deltas (written (res (world
     (chat_completions [''key-A'', ''key-B''] example_host (logging example_backend) 1234 5678
        example_body \<lparr>currentApiKeyIndex = Idx 0, world = ([], 0)\<rparr>)))) = [''Hel'', ''Hel'', ''lo''] \<and>
   content_deltas (written (res (world
     (chat_completions [''key-A'', ''key-B''] example_host example_backend 1234 5678
        example_body \<lparr>currentApiKeyIndex = Idx 0, world = 0\<rparr>)))) = [''Hel'', ''Hel'', ''lo'']"
proof -
  note t = delta_chunks_are_nonempty_fragments [where responseId = "''x''" and cr = 0 and fs = "[]"
      and r = fresh_response and apiKeyPool = "[''key-A'', ''key-B'']" and h = example_host
      and be = example_backend and now_id = 1234 and now_created = 5678 and body = example_body
      and c = "Idx 0" and b = 0]
  have a: "content_deltas (written (res (world
     (chat_completions [''key-A'', ''key-B''] example_host (logging example_backend) 1234 5678
        example_body \<lparr>currentApiKeyIndex = Idx 0, world = ([], 0)\<rparr>)))) =
      filter (\<lambda>t. t \<noteq> []) [''Hel'', [], ''Hel'', ''lo'']"
    using t unfolding example_log by blast
  have b: "res (world
     (chat_completions [''key-A'', ''key-B''] example_host (logging example_backend) 1234 5678
        example_body \<lparr>currentApiKeyIndex = Idx 0, world = ([], 0)\<rparr>)) =
     res (world
     (chat_completions [''key-A'', ''key-B''] example_host example_backend 1234 5678
        example_body \<lparr>currentApiKeyIndex = Idx 0, world = 0\<rparr>))"
    using t by blast
  show ?thesis using a b example_log by simp
qed

subsection \<open>The generate endpoint without a prompt\<close>

text \<open>
  C9. With an absent or falsy \<open>prompt\<close> the generate handler answers status 400 and
  \<open>{success: false, error: message}\<close>; the answer is the same for every backend, and
  the backend's state and the cursor are as before the request.
\<close>

theorem generate_without_prompt:
  "\<not> truthy (prompt body) \<longrightarrow>
     generate apiKeyPool h be body uploadedFiles s0 =
       \<lparr>currentApiKeyIndex = currentApiKeyIndex s0,
        world = \<lparr>res = \<lparr>statusCode = 400, headers = [], written = [],
                        json = Some (GenerateFailed (Some prompt_required)), ended = True\<rparr>,
                 backend_state = world s0\<rparr>\<rparr> \<and>
     generate apiKeyPool h be body uploadedFiles s0 = generate apiKeyPool h be' body uploadedFiles s0"
  by (simp add: generate_def Let_def map_res_def res_json_def res_status_def fresh_response_def)

text \<open>An instance.\<close>

theorem generate_without_prompt_witness:
  "\<not> truthy (prompt \<lparr>prompt = JUndefined, images = JUndefined\<rparr>) \<and>
   generate [''key-A'', ''key-B''] example_host example_backend
       \<lparr>prompt = JUndefined, images = JUndefined\<rparr> [] \<lparr>currentApiKeyIndex = Idx 0, world = 0\<rparr> =
     \<lparr>currentApiKeyIndex = Idx 0,
      world = \<lparr>res = \<lparr>statusCode = 400, headers = [], written = [],
                      json = Some (GenerateFailed (Some prompt_required)), ended = True\<rparr>,
               backend_state = 0\<rparr>\<rparr> \<and>
   \<not> truthy (prompt \<lparr>prompt = JStr [], images = JArr []\<rparr>) \<and>
   generate [''key-A'', ''key-B''] example_host example_backend
       \<lparr>prompt = JStr [], images = JArr []\<rparr>
       [\<lparr>path = ''/srv/app/uploads/1-cat.png'', mimetype = ''image/png''\<rparr>]
       \<lparr>currentApiKeyIndex = Idx 1, world = 7\<rparr> =
     \<lparr>currentApiKeyIndex = Idx 1,
      world = \<lparr>res = \<lparr>statusCode = 400, headers = [], written = [],
                      json = Some (GenerateFailed (Some prompt_required)), ended = True\<rparr>,
               backend_state = 7\<rparr>\<rparr>"
  using generate_without_prompt [of "\<lparr>prompt = JUndefined, images = JUndefined\<rparr>"
      "[''key-A'', ''key-B'']" example_host example_backend "[]"
      "\<lparr>currentApiKeyIndex = Idx 0, world = 0\<rparr>" example_backend]
    generate_without_prompt [of "\<lparr>prompt = JStr [], images = JArr []\<rparr>"
      "[''key-A'', ''key-B'']" example_host example_backend
      "[\<lparr>path = ''/srv/app/uploads/1-cat.png'', mimetype = ''image/png''\<rparr>]"
      "\<lparr>currentApiKeyIndex = Idx 1, world = 7\<rparr>" example_backend]
  by simp

end
